theory Spec2Isabelle
  imports Main
begin

section \<open>Python values, exceptions and the outside world\<close>

text \<open>
  The two scripts (\<^verbatim>\<open>app/client.py\<close> and \<^verbatim>\<open>local_client.py\<close>) talk to a vector-database
  service through the \<^verbatim>\<open>chromadb\<close> client library.  The service and the library are not part
  of the repository, so their answers are an environment: for every remote operation a
  script says whether the \<open>k\<close>-th call raises and what a successful call returns.  The
  program's effects are kept in a world record: the remote calls and sleeps it made, the
  log records, the lines printed, and the names of the collections the service holds.
\<close>

datatype exn = Exc (exc_class: string) (exc_msg: string)

text \<open>\<^verbatim>\<open>str(e)\<close> of an exception built from one message is that message.\<close>

definition str_exn :: "exn \<Rightarrow> string" where
  "str_exn e = exc_msg e"

datatype pyval = PStr string | PInt int | PBool bool | PNone

type_synonym pydict = "(string \<times> pyval) list"

datatype level = INFO | WARNING | ERROR

datatype op =
    OpHttpClient | OpHeartbeat | OpListCollections | OpGetCollection | OpGetOrCreate
  | OpCount | OpPeek | OpAdd | OpQuery | OpUuid4

record settings =
  allow_reset :: "bool option"
  anonymized_telemetry :: bool
  chroma_api_impl :: "string option"

record http_client =
  hc_host :: string
  hc_port :: int
  hc_settings :: settings
  hc_id :: nat

datatype collection = Collection (coll_name: string)

text \<open>\<^verbatim>\<open>query_texts: List[str] | str\<close>\<close>

datatype query_texts = QStr string | QList "string list"

text \<open>
  What the service returns for a query and for a peek.  A record stored without a document
  or without metadata has \<^verbatim>\<open>None\<close> in its place.
\<close>

record 'f query_result =
  documents :: "string option list list"
  metadatas :: "pydict option list list"
  distances :: "'f list list"

record peek_result =
  peek_ids :: "string list"
  peek_documents :: "string option list"
  peek_metadatas :: "pydict option list"

datatype 'f event =
    CallHttpClient string int
  | CallHeartbeat
  | CallListCollections
  | CallGetCollection string
  | CallGetOrCreate string "pydict option"
  | CallCount collection
  | CallPeek collection int
  | CallAdd collection "string list" "pydict list option" "string list" "'f list list option"
  | CallQuery collection query_texts int "pydict option" "pydict option"
  | Sleep int

text \<open>
  The environment.  \<open>fails op k\<close> is the exception the \<open>k\<close>-th call of \<open>op\<close> raises, if
  any (for the heartbeat, \<open>k\<close> is the number of the handle it is called on, so that one
  connection attempt is one index).  The remaining fields are what successful calls
  return and how the interpreter renders a dictionary and \<^verbatim>\<open>f"{1-distance:.4f}"\<close>; floats
  are the type parameter \<open>'f\<close>.
\<close>

record 'f env =
  fails :: "op \<Rightarrow> nat \<Rightarrow> exn option"
  missing_collection :: "string \<Rightarrow> exn"
  count_ret :: "nat \<Rightarrow> int"
  peek_ret :: "nat \<Rightarrow> peek_result"
  query_ret :: "nat \<Rightarrow> 'f query_result"
  uuid4_str :: "nat \<Rightarrow> string"
  repr_dict :: "pydict \<Rightarrow> string"
  similarity_4f :: "'f \<Rightarrow> string"

record 'f world =
  ncalls :: "op \<Rightarrow> nat"
  collections :: "string list"
  trace :: "'f event list"
  logs :: "(level \<times> string) list"
  out :: "string list"

definition tick :: "op \<Rightarrow> 'f event \<Rightarrow> 'f world \<Rightarrow> 'f world" where
  "tick opn ev w = w\<lparr>ncalls := (ncalls w)(opn := Suc (ncalls w opn)), trace := trace w @ [ev]\<rparr>"

definition logger :: "level \<Rightarrow> string \<Rightarrow> 'f world \<Rightarrow> 'f world" where
  "logger lv msg w = w\<lparr>logs := logs w @ [(lv, msg)]\<rparr>"

definition print :: "string \<Rightarrow> 'f world \<Rightarrow> 'f world" where
  "print line w = w\<lparr>out := out w @ [line]\<rparr>"

text \<open>\<^verbatim>\<open>str\<close> of an integer, as the f-strings of the log messages render it.\<close>

fun str_nat :: "nat \<Rightarrow> string" where
  "str_nat n = (if n < 10 then [''0123456789'' ! n] else str_nat (n div 10) @ [''0123456789'' ! (n mod 10)])"

definition str_int :: "int \<Rightarrow> string" where
  "str_int i = (if i < 0 then CHR ''-'' # str_nat (nat (- i)) else str_nat (nat i))"

text \<open>A string between single quotes, as the messages quote names.\<close>

definition sq :: "string \<Rightarrow> string" where
  "sq s = CHR 0x27 # s @ [CHR 0x27]"

text \<open>
  \<^verbatim>\<open>time.sleep\<close> of an integer number of seconds.  The interpreter first converts the length
  to a signed 64-bit count of nanoseconds and raises \<^verbatim>\<open>OverflowError\<close> when it does not fit:
  the largest whole number of seconds that fits is \<open>(2^63 - 1) div 10^9 = 9223372036\<close>.
  Then it raises \<^verbatim>\<open>ValueError\<close> on a negative length, and sleeps otherwise.
\<close>

definition sleep_max :: int where
  "sleep_max = 9223372036"

definition time_sleep :: "int \<Rightarrow> 'f world \<Rightarrow> (exn + unit) \<times> 'f world" where
  "time_sleep secs w =
     (if secs < - sleep_max \<or> sleep_max < secs then
        (Inl (Exc ''OverflowError'' ''timestamp too large to convert to C _PyTime_t''), w)
      else if secs < 0 then (Inl (Exc ''ValueError'' ''sleep length must be non-negative''), w)
      else (Inr (), w\<lparr>trace := trace w @ [Sleep secs]\<rparr>))"


subsection \<open>The remote operations\<close>

definition HttpClient ::
  "'f env \<Rightarrow> string \<Rightarrow> int \<Rightarrow> settings \<Rightarrow> 'f world \<Rightarrow> (exn + http_client) \<times> 'f world" where
  "HttpClient env h p s w =
     (let k = ncalls w OpHttpClient; w' = tick OpHttpClient (CallHttpClient h p) w
      in case fails env OpHttpClient k of
           Some e \<Rightarrow> (Inl e, w')
         | None \<Rightarrow> (Inr \<lparr>hc_host = h, hc_port = p, hc_settings = s, hc_id = k\<rparr>, w'))"

definition heartbeat :: "'f env \<Rightarrow> http_client \<Rightarrow> 'f world \<Rightarrow> (exn + unit) \<times> 'f world" where
  "heartbeat env cl w =
     (let w' = tick OpHeartbeat CallHeartbeat w
      in case fails env OpHeartbeat (hc_id cl) of
           Some e \<Rightarrow> (Inl e, w')
         | None \<Rightarrow> (Inr (), w'))"

section \<open>\<^verbatim>\<open>app/client.py\<close>: the connection wrapper\<close>

record ChromaDBClient =
  host :: string
  port :: int
  max_retries :: int
  retry_delay :: int
  client_settings :: settings
  client :: "http_client option"

text \<open>
  The body of the \<^verbatim>\<open>try\<close> of \<^verbatim>\<open>_connect\<close>: it logs, builds the handle, stores it in
  \<^verbatim>\<open>self.client\<close> and calls the heartbeat.  It returns the value of \<^verbatim>\<open>self.client\<close>
  afterwards: the assignment has happened when the heartbeat raises, and has not when
  the constructor raises.
\<close>

definition connect_try ::
  "'f env \<Rightarrow> ChromaDBClient \<Rightarrow> int \<Rightarrow> http_client option \<Rightarrow> 'f world
     \<Rightarrow> (exn + unit) \<times> http_client option \<times> 'f world" where
  "connect_try env c attempts cl w =
     (let w1 = logger INFO (''Connecting to ChromaDB at '' @ host c @ '':'' @ str_int (port c)
                 @ '' (attempt '' @ str_int (attempts + 1) @ ''/'' @ str_int (max_retries c) @ '')'') w
      in case HttpClient env (host c) (port c) (client_settings c) w1 of
           (Inl e, w2) \<Rightarrow> (Inl e, cl, w2)
         | (Inr h, w2) \<Rightarrow>
             (case heartbeat env h w2 of
                (Inl e, w3) \<Rightarrow> (Inl e, Some h, w3)
              | (Inr u, w3) \<Rightarrow> (Inr (), Some h, logger INFO ''Successfully connected to ChromaDB'' w3)))"

text \<open>
  The \<^verbatim>\<open>while attempts < self.max_retries\<close> loop of \<^verbatim>\<open>_connect\<close>, with the \<^verbatim>\<open>except\<close>
  handler.  An exception raised inside the handler (by \<^verbatim>\<open>time.sleep\<close>) leaves the method.
\<close>

function connect_loop ::
  "'f env \<Rightarrow> ChromaDBClient \<Rightarrow> int \<Rightarrow> http_client option \<Rightarrow> 'f world
     \<Rightarrow> (exn + unit) \<times> http_client option \<times> 'f world" where
  "connect_loop env c attempts cl w =
     (if attempts < max_retries c then
        (case connect_try env c attempts cl w of
           (Inr u, cl1, w1) \<Rightarrow> (Inr (), cl1, w1)
         | (Inl e, cl1, w1) \<Rightarrow>
             (let attempts1 = attempts + 1;
                  w2 = logger WARNING (''Connection attempt '' @ str_int attempts1 @ '' failed: '' @ str_exn e) w1
              in if attempts1 \<ge> max_retries c then
                   (Inl (Exc ''ConnectionError'' (''Could not connect to ChromaDB: '' @ str_exn e)), cl1,
                    logger ERROR (''Failed to connect after '' @ str_int (max_retries c) @ '' attempts'') w2)
                 else
                   (case time_sleep (retry_delay c) w2 of
                      (Inl e', w3) \<Rightarrow> (Inl e', cl1, w3)
                    | (Inr u, w3) \<Rightarrow> connect_loop env c attempts1 cl1 w3)))
      else (Inr (), cl, w))"
  by pat_completeness auto
termination
  by (relation "measure (\<lambda>(env, c, attempts, cl, w). nat (max_retries c - attempts))") auto

definition ChromaDBClient_connect ::
  "'f env \<Rightarrow> ChromaDBClient \<Rightarrow> 'f world \<Rightarrow> (exn + unit) \<times> ChromaDBClient \<times> 'f world" where
  "ChromaDBClient_connect env c w =
     (case connect_loop env c 0 (client c) w of (r, cl, w') \<Rightarrow> (r, c\<lparr>client := cl\<rparr>, w'))"


definition ChromaDBClient_init ::
  "'f env \<Rightarrow> string \<Rightarrow> int \<Rightarrow> int \<Rightarrow> int \<Rightarrow> bool \<Rightarrow> bool \<Rightarrow> 'f world
     \<Rightarrow> (exn + ChromaDBClient) \<times> 'f world" where
  "ChromaDBClient_init env h p retries delay reset telemetry w =
     (let self = \<lparr>host = h, port = p, max_retries = retries, retry_delay = delay,
                  client_settings = \<lparr>allow_reset = Some reset, anonymized_telemetry = telemetry,
                                      chroma_api_impl = Some ''rest''\<rparr>,
                  client = None\<rparr>
      in case ChromaDBClient_connect env self w of
           (Inl e, self1, w1) \<Rightarrow> (Inl e, w1)
         | (Inr u, self1, w1) \<Rightarrow> (Inr self1, w1))"

subsection \<open>Collections\<close>

text \<open>
  The service's get-or-create: a successful call returns the collection of that name and
  registers the name when the service did not hold it.
\<close>

definition remote_get_or_create ::
  "'f env \<Rightarrow> http_client \<Rightarrow> string \<Rightarrow> pydict option \<Rightarrow> 'f world \<Rightarrow> (exn + collection) \<times> 'f world" where
  "remote_get_or_create env cl name md w =
     (let k = ncalls w OpGetOrCreate; w' = tick OpGetOrCreate (CallGetOrCreate name md) w
      in case fails env OpGetOrCreate k of
           Some e \<Rightarrow> (Inl e, w')
         | None \<Rightarrow>
             (Inr (Collection name),
              w'\<lparr>collections := (if name \<in> set (collections w') then collections w'
                                 else collections w' @ [name])\<rparr>))"

definition none_has_no_attribute :: "string \<Rightarrow> exn" where
  "none_has_no_attribute a =
     Exc ''AttributeError'' (sq ''NoneType'' @ '' object has no attribute '' @ sq a)"

text \<open>The body of the \<^verbatim>\<open>try\<close> of \<^verbatim>\<open>get_or_create_collection\<close>.\<close>

definition goc_try ::
  "'f env \<Rightarrow> string \<Rightarrow> pydict option \<Rightarrow> http_client option \<Rightarrow> 'f world
     \<Rightarrow> (exn + collection) \<times> 'f world" where
  "goc_try env name md cl w =
     (case cl of
        None \<Rightarrow> (Inl (none_has_no_attribute ''get_or_create_collection''), w)
      | Some h \<Rightarrow>
          (case remote_get_or_create env h name md w of
             (Inl e, w1) \<Rightarrow> (Inl e, w1)
           | (Inr coll, w1) \<Rightarrow>
               (Inr coll, logger INFO (''Collection '' @ sq name @ '' accessed successfully'') w1)))"

text \<open>
  The retry loop of \<^verbatim>\<open>get_or_create_collection\<close>.  The loop that ends without a
  \<^verbatim>\<open>return\<close> returns \<^verbatim>\<open>None\<close>.  An exception of \<^verbatim>\<open>time.sleep\<close> or of \<^verbatim>\<open>self._connect()\<close>
  is raised inside the handler and leaves the method.
\<close>

function goc_loop ::
  "'f env \<Rightarrow> ChromaDBClient \<Rightarrow> string \<Rightarrow> pydict option \<Rightarrow> int \<Rightarrow> http_client option \<Rightarrow> 'f world
     \<Rightarrow> (exn + collection option) \<times> http_client option \<times> 'f world" where
  "goc_loop env c name md attempts cl w =
     (if attempts < max_retries c then
        (case goc_try env name md cl w of
           (Inr coll, w1) \<Rightarrow> (Inr (Some coll), cl, w1)
         | (Inl e, w1) \<Rightarrow>
             (let attempts1 = attempts + 1;
                  w2 = logger WARNING (''Collection access attempt '' @ str_int attempts1
                         @ '' failed: '' @ str_exn e) w1
              in if attempts1 \<ge> max_retries c then
                   (Inl e, cl,
                    logger ERROR (''Failed to access collection after '' @ str_int (max_retries c)
                      @ '' attempts'') w2)
                 else
                   (case time_sleep (retry_delay c) w2 of
                      (Inl e', w3) \<Rightarrow> (Inl e', cl, w3)
                    | (Inr u, w3) \<Rightarrow>
                        (if attempts1 mod 2 = 0 then
                           (case ChromaDBClient_connect env (c\<lparr>client := cl\<rparr>)
                                   (logger INFO ''Attempting to reconnect to ChromaDB'' w3) of
                              (Inl e'', c2, w4) \<Rightarrow> (Inl e'', client c2, w4)
                            | (Inr u, c2, w4) \<Rightarrow> goc_loop env c name md attempts1 (client c2) w4)
                         else goc_loop env c name md attempts1 cl w3))))
      else (Inr None, cl, w))"
  by pat_completeness auto
termination
  by (relation "measure (\<lambda>(env, c, name, md, attempts, cl, w). nat (max_retries c - attempts))") auto

definition get_or_create_collection ::
  "'f env \<Rightarrow> ChromaDBClient \<Rightarrow> string \<Rightarrow> pydict option \<Rightarrow> 'f world
     \<Rightarrow> (exn + collection option) \<times> ChromaDBClient \<times> 'f world" where
  "get_or_create_collection env c name md w =
     (case goc_loop env c name md 0 (client c) w of (r, cl, w') \<Rightarrow> (r, c\<lparr>client := cl\<rparr>, w'))"

subsection \<open>Document ingestion\<close>

definition uuid4 :: "'f env \<Rightarrow> 'f world \<Rightarrow> string \<times> 'f world" where
  "uuid4 env w =
     (uuid4_str env (ncalls w OpUuid4), w\<lparr>ncalls := (ncalls w)(OpUuid4 := Suc (ncalls w OpUuid4))\<rparr>)"

text \<open>\<^verbatim>\<open>[str(uuid.uuid4()) for _ in range(n)]\<close>\<close>

fun uuid_ids :: "'f env \<Rightarrow> nat \<Rightarrow> 'f world \<Rightarrow> string list \<times> 'f world" where
  "uuid_ids env 0 w = ([], w)"
| "uuid_ids env (Suc n) w =
     (case uuid4 env w of (u, w1) \<Rightarrow> (case uuid_ids env n w1 of (us, w2) \<Rightarrow> (u # us, w2)))"

definition collection_add ::
  "'f env \<Rightarrow> collection \<Rightarrow> string list \<Rightarrow> pydict list option \<Rightarrow> string list \<Rightarrow> 'f list list option
     \<Rightarrow> 'f world \<Rightarrow> (exn + unit) \<times> 'f world" where
  "collection_add env coll docs metas ids embs w =
     (let k = ncalls w OpAdd; w' = tick OpAdd (CallAdd coll docs metas ids embs) w
      in case fails env OpAdd k of Some e \<Rightarrow> (Inl e, w') | None \<Rightarrow> (Inr (), w'))"

text \<open>The body of the \<^verbatim>\<open>try\<close> of \<^verbatim>\<open>add_documents\<close>.\<close>

definition add_try ::
  "'f env \<Rightarrow> collection option \<Rightarrow> string \<Rightarrow> string list \<Rightarrow> pydict list option \<Rightarrow> string list option
     \<Rightarrow> 'f list list option \<Rightarrow> 'f world \<Rightarrow> (exn + unit) \<times> 'f world" where
  "add_try env coll collection_name docs metas ids embs w =
     (case (case ids of None \<Rightarrow> uuid_ids env (length docs) w | Some given \<Rightarrow> (given, w)) of
        (ids1, w1) \<Rightarrow>
          (case coll of
             None \<Rightarrow> (Inl (none_has_no_attribute ''add''), w1)
           | Some cn \<Rightarrow>
               (case collection_add env cn docs metas ids1 embs w1 of
                  (Inl e, w2) \<Rightarrow> (Inl e, w2)
                | (Inr u, w2) \<Rightarrow>
                    (Inr (), logger INFO (''Successfully added '' @ str_int (int (length docs))
                               @ '' documents to '' @ sq collection_name) w2))))"

definition add_documents ::
  "'f env \<Rightarrow> ChromaDBClient \<Rightarrow> string \<Rightarrow> string list \<Rightarrow> pydict list option \<Rightarrow> string list option
     \<Rightarrow> 'f list list option \<Rightarrow> 'f world \<Rightarrow> (exn + unit) \<times> ChromaDBClient \<times> 'f world" where
  "add_documents env c collection_name docs metas ids embs w =
     (case get_or_create_collection env c collection_name None w of
        (Inl e, c1, w1) \<Rightarrow> (Inl e, c1, w1)
      | (Inr coll, c1, w1) \<Rightarrow>
          (case add_try env coll collection_name docs metas ids embs w1 of
             (Inl e, w2) \<Rightarrow> (Inl e, c1, logger ERROR (''Failed to add documents: '' @ str_exn e) w2)
           | (Inr u, w2) \<Rightarrow> (Inr (), c1, w2)))"

subsection \<open>Query\<close>

definition collection_query ::
  "'f env \<Rightarrow> collection \<Rightarrow> query_texts \<Rightarrow> int \<Rightarrow> pydict option \<Rightarrow> pydict option \<Rightarrow> 'f world
     \<Rightarrow> (exn + 'f query_result) \<times> 'f world" where
  "collection_query env coll qt n wh whd w =
     (let k = ncalls w OpQuery; w' = tick OpQuery (CallQuery coll qt n wh whd) w
      in case fails env OpQuery k of Some e \<Rightarrow> (Inl e, w') | None \<Rightarrow> (Inr (query_ret env k), w'))"

text \<open>The body of the \<^verbatim>\<open>try\<close> of \<^verbatim>\<open>query_collection\<close>.\<close>

definition query_try ::
  "'f env \<Rightarrow> collection option \<Rightarrow> string \<Rightarrow> query_texts \<Rightarrow> int \<Rightarrow> pydict option \<Rightarrow> pydict option
     \<Rightarrow> 'f world \<Rightarrow> (exn + 'f query_result) \<times> 'f world" where
  "query_try env coll collection_name qt n wh whd w =
     (let qt1 = (case qt of QStr s \<Rightarrow> QList [s] | QList l \<Rightarrow> QList l)
      in case coll of
           None \<Rightarrow> (Inl (none_has_no_attribute ''query''), w)
         | Some cn \<Rightarrow>
             (case collection_query env cn qt1 n wh whd w of
                (Inl e, w1) \<Rightarrow> (Inl e, w1)
              | (Inr results, w1) \<Rightarrow>
                  (Inr results,
                   logger INFO (''Successfully queried collection '' @ sq collection_name) w1)))"

definition query_collection ::
  "'f env \<Rightarrow> ChromaDBClient \<Rightarrow> string \<Rightarrow> query_texts \<Rightarrow> int \<Rightarrow> pydict option \<Rightarrow> pydict option
     \<Rightarrow> 'f world \<Rightarrow> (exn + 'f query_result) \<times> ChromaDBClient \<times> 'f world" where
  "query_collection env c collection_name qt n wh whd w =
     (case get_or_create_collection env c collection_name None w of
        (Inl e, c1, w1) \<Rightarrow> (Inl e, c1, w1)
      | (Inr coll, c1, w1) \<Rightarrow>
          (case query_try env coll collection_name qt n wh whd w1 of
             (Inl e, w2) \<Rightarrow> (Inl e, c1, logger ERROR (''Failed to query collection: '' @ str_exn e) w2)
           | (Inr results, w2) \<Rightarrow> (Inr results, c1, w2)))"

section \<open>\<^verbatim>\<open>local_client.py\<close>: the command-line script\<close>

text \<open>
  \<^verbatim>\<open>sys.exit(1)\<close> raises \<^verbatim>\<open>SystemExit\<close>, which no \<^verbatim>\<open>except Exception\<close> catches; an
  exception nobody catches ends the script with a traceback.  Both are ways a function of
  the script does not return.
\<close>

datatype abort = SystemExit int | Uncaught exn

definition remote_list_collections ::
  "'f env \<Rightarrow> http_client \<Rightarrow> 'f world \<Rightarrow> (exn + collection list) \<times> 'f world" where
  "remote_list_collections env cl w =
     (let k = ncalls w OpListCollections; w' = tick OpListCollections CallListCollections w
      in case fails env OpListCollections k of
           Some e \<Rightarrow> (Inl e, w')
         | None \<Rightarrow> (Inr (map Collection (collections w')), w'))"

text \<open>The service's \<^verbatim>\<open>get_collection\<close> raises when it holds no collection of that name.\<close>

definition remote_get_collection ::
  "'f env \<Rightarrow> http_client \<Rightarrow> string \<Rightarrow> 'f world \<Rightarrow> (exn + collection) \<times> 'f world" where
  "remote_get_collection env cl name w =
     (let k = ncalls w OpGetCollection; w' = tick OpGetCollection (CallGetCollection name) w
      in case fails env OpGetCollection k of
           Some e \<Rightarrow> (Inl e, w')
         | None \<Rightarrow>
             (if name \<in> set (collections w') then (Inr (Collection name), w')
              else (Inl (missing_collection env name), w')))"

definition collection_count :: "'f env \<Rightarrow> collection \<Rightarrow> 'f world \<Rightarrow> (exn + int) \<times> 'f world" where
  "collection_count env coll w =
     (let k = ncalls w OpCount; w' = tick OpCount (CallCount coll) w
      in case fails env OpCount k of Some e \<Rightarrow> (Inl e, w') | None \<Rightarrow> (Inr (count_ret env k), w'))"

definition collection_peek ::
  "'f env \<Rightarrow> collection \<Rightarrow> int \<Rightarrow> 'f world \<Rightarrow> (exn + peek_result) \<times> 'f world" where
  "collection_peek env coll limit w =
     (let k = ncalls w OpPeek; w' = tick OpPeek (CallPeek coll limit) w
      in case fails env OpPeek k of Some e \<Rightarrow> (Inl e, w') | None \<Rightarrow> (Inr (peek_ret env k), w'))"

text \<open>The body of the \<^verbatim>\<open>try\<close> of \<^verbatim>\<open>connect_to_chroma\<close>.\<close>

definition connect_to_chroma_try ::
  "'f env \<Rightarrow> string \<Rightarrow> int \<Rightarrow> 'f world \<Rightarrow> (exn + http_client) \<times> 'f world" where
  "connect_to_chroma_try env h p w =
     (case HttpClient env h p
             \<lparr>allow_reset = None, anonymized_telemetry = False, chroma_api_impl = None\<rparr> w of
        (Inl e, w1) \<Rightarrow> (Inl e, w1)
      | (Inr cl, w1) \<Rightarrow>
          (case heartbeat env cl w1 of
             (Inl e, w2) \<Rightarrow> (Inl e, w2)
           | (Inr u, w2) \<Rightarrow> (Inr cl, print ''Successfully connected to ChromaDB'' w2)))"

definition connect_to_chroma ::
  "'f env \<Rightarrow> string \<Rightarrow> int \<Rightarrow> 'f world \<Rightarrow> (abort + http_client) \<times> 'f world" where
  "connect_to_chroma env h p w =
     (case connect_to_chroma_try env h p
             (print (''Connecting to ChromaDB at http://'' @ h @ '':'' @ str_int p) w) of
        (Inr cl, w1) \<Rightarrow> (Inr cl, w1)
      | (Inl e, w1) \<Rightarrow>
          (Inl (SystemExit 1), print (''Failed to connect to ChromaDB: '' @ str_exn e) w1))"

text \<open>The \<^verbatim>\<open>for idx, collection in enumerate(collections, 1)\<close> loop of \<^verbatim>\<open>list_collections\<close>.\<close>

fun list_collections_loop ::
  "collection list \<Rightarrow> int \<Rightarrow> string list \<Rightarrow> 'f world \<Rightarrow> string list \<times> 'f world" where
  "list_collections_loop [] idx collection_names w = (collection_names, w)"
| "list_collections_loop (coll # rest) idx collection_names w =
     list_collections_loop rest (idx + 1) (collection_names @ [coll_name coll])
       (print (''  '' @ str_int idx @ ''. '' @ coll_name coll) w)"

definition list_collections ::
  "'f env \<Rightarrow> http_client \<Rightarrow> 'f world \<Rightarrow> (abort + string list) \<times> 'f world" where
  "list_collections env cl w =
     (case remote_list_collections env cl w of
        (Inl e, w1) \<Rightarrow> (Inl (Uncaught e), w1)
      | (Inr colls, w1) \<Rightarrow>
          (if colls = [] then (Inr [], print ''No collections found in ChromaDB'' w1)
           else
             (case list_collections_loop colls 1 []
                     (print (''Found '' @ str_int (int (length colls)) @ '' collections:'') w1) of
                (names, w2) \<Rightarrow> (Inr names, w2))))"

text \<open>\<^verbatim>\<open>str\<close> of an optional document and of optional metadata inside an f-string.\<close>

definition str_doc :: "string option \<Rightarrow> string" where
  "str_doc doc = (case doc of None \<Rightarrow> ''None'' | Some d \<Rightarrow> d)"

definition str_metadata :: "'f env \<Rightarrow> pydict option \<Rightarrow> string" where
  "str_metadata env metadata = (case metadata of None \<Rightarrow> ''None'' | Some d \<Rightarrow> repr_dict env d)"

text \<open>
  The rows \<^verbatim>\<open>zip(sample['ids'], sample['documents'], sample['metadatas'])\<close> of a peek.
\<close>

definition sample_rows :: "peek_result \<Rightarrow> (string \<times> string option \<times> pydict option) list" where
  "sample_rows sample = zip (peek_ids sample) (zip (peek_documents sample) (peek_metadatas sample))"

text \<open>
  The loop of \<^verbatim>\<open>get_collection_info\<close> over the enumerated rows.  Each round prints the id
  and then evaluates \<^verbatim>\<open>doc[:100]\<close>, which raises \<^verbatim>\<open>TypeError\<close> when the document is
  \<^verbatim>\<open>None\<close>.
\<close>

fun sample_loop ::
  "'f env \<Rightarrow> (string \<times> string option \<times> pydict option) list \<Rightarrow> int \<Rightarrow> 'f world
     \<Rightarrow> (exn + unit) \<times> 'f world" where
  "sample_loop env [] idx w = (Inr (), w)"
| "sample_loop env ((doc_id, doc, metadata) # rest) idx w =
     (let w1 = print (''  '' @ str_int idx @ ''. ID: '' @ doc_id) w
      in case doc of
           None \<Rightarrow> (Inl (Exc ''TypeError'' (sq ''NoneType'' @ '' object is not subscriptable'')), w1)
         | Some d \<Rightarrow>
             sample_loop env rest (idx + 1)
               (print (''     Metadata: '' @ str_metadata env metadata)
                 (print (''     Content: '' @ take 100 d @ (if length d > 100 then ''...'' else '''')) w1)))"

text \<open>The body of the \<^verbatim>\<open>try\<close> of \<^verbatim>\<open>get_collection_info\<close>.\<close>

definition get_collection_info_try ::
  "'f env \<Rightarrow> http_client \<Rightarrow> string \<Rightarrow> 'f world \<Rightarrow> (exn + pydict) \<times> 'f world" where
  "get_collection_info_try env cl collection_name w =
     (case remote_get_collection env cl collection_name w of
        (Inl e, w1) \<Rightarrow> (Inl e, w1)
      | (Inr coll, w1) \<Rightarrow>
          (case collection_count env coll w1 of
             (Inl e, w2) \<Rightarrow> (Inl e, w2)
           | (Inr count, w2) \<Rightarrow>
               (let w3 = print (''Number of documents: '' @ str_int count)
                           (print (''Collection: '' @ collection_name) w2);
                    info = [(''name'', PStr collection_name), (''count'', PInt count)]
                in if count > 0 then
                     (case collection_peek env coll 3 w3 of
                        (Inl e, w4) \<Rightarrow> (Inl e, w4)
                      | (Inr sample, w4) \<Rightarrow>
                          (case sample_loop env (sample_rows sample) 1
                                  (print ''Sample documents:'' w4) of
                             (Inl e, w5) \<Rightarrow> (Inl e, w5)
                           | (Inr u, w5) \<Rightarrow> (Inr info, w5)))
                   else (Inr info, w3))))"

text \<open>
  \<^verbatim>\<open>get_collection_info\<close>: the handler prints the error and returns the empty
  dictionary.
\<close>

definition get_collection_info ::
  "'f env \<Rightarrow> http_client \<Rightarrow> string \<Rightarrow> 'f world \<Rightarrow> (abort + pydict) \<times> 'f world" where
  "get_collection_info env cl collection_name w =
     (case get_collection_info_try env cl collection_name w of
        (Inr info, w1) \<Rightarrow> (Inr info, w1)
      | (Inl e, w1) \<Rightarrow> (Inr [], print (''Error getting collection info: '' @ str_exn e) w1))"

text \<open>\<^verbatim>\<open>xs[0]\<close> raises \<^verbatim>\<open>IndexError\<close> on the empty list.\<close>

definition index0 :: "'a list \<Rightarrow> exn + 'a" where
  "index0 xs = (case xs of [] \<Rightarrow> Inl (Exc ''IndexError'' ''list index out of range'') | x # rest \<Rightarrow> Inr x)"

text \<open>The loop that prints the rows of one query's result, shared by both query functions.\<close>

fun results_loop ::
  "'f env \<Rightarrow> (string option \<times> pydict option \<times> 'f) list \<Rightarrow> int \<Rightarrow> 'f world \<Rightarrow> 'f world" where
  "results_loop env [] idx w = w"
| "results_loop env ((doc, metadata, distance) # rest) idx w =
     results_loop env rest (idx + 1)
       (print (''   Metadata: '' @ str_metadata env metadata)
         (print (''   '' @ str_doc doc)
           (print (CHR 0x0A # str_int idx @ ''. Document (similarity: '' @ similarity_4f env distance @ ''):'') w)))"

text \<open>
  The rows \<^verbatim>\<open>zip(results['documents'][0], results['metadatas'][0], results['distances'][0])\<close>,
  each index evaluated in turn.
\<close>

definition result_rows ::
  "'f query_result \<Rightarrow> exn + (string option \<times> pydict option \<times> 'f) list" where
  "result_rows results =
     (case index0 (documents results) of
        Inl e \<Rightarrow> Inl e
      | Inr docs \<Rightarrow>
          (case index0 (metadatas results) of
             Inl e \<Rightarrow> Inl e
           | Inr metas \<Rightarrow>
               (case index0 (distances results) of
                  Inl e \<Rightarrow> Inl e
                | Inr dists \<Rightarrow> Inr (zip docs (zip metas dists)))))"

text \<open>The body of the \<^verbatim>\<open>try\<close> of \<^verbatim>\<open>run_basic_query\<close>.\<close>

definition run_basic_query_try ::
  "'f env \<Rightarrow> http_client \<Rightarrow> string \<Rightarrow> string \<Rightarrow> int \<Rightarrow> 'f world
     \<Rightarrow> (exn + 'f query_result option) \<times> 'f world" where
  "run_basic_query_try env cl collection_name query_text n_results w =
     (case remote_get_collection env cl collection_name w of
        (Inl e, w1) \<Rightarrow> (Inl e, w1)
      | (Inr coll, w1) \<Rightarrow>
          (case collection_query env coll (QStr query_text) n_results None None w1 of
             (Inl e, w2) \<Rightarrow> (Inl e, w2)
           | (Inr results, w2) \<Rightarrow>
               (let w3 = print (''Top '' @ str_int n_results @ '' results:'')
                           (print (CHR 0x0A # ''Query: '' @ sq query_text) w2)
                in case result_rows results of
                     Inl e \<Rightarrow> (Inl e, w3)
                   | Inr rows \<Rightarrow> (Inr (Some results), results_loop env rows 1 w3))))"

definition run_basic_query ::
  "'f env \<Rightarrow> http_client \<Rightarrow> string \<Rightarrow> string \<Rightarrow> int \<Rightarrow> 'f world
     \<Rightarrow> (abort + 'f query_result option) \<times> 'f world" where
  "run_basic_query env cl collection_name query_text n_results w =
     (case run_basic_query_try env cl collection_name query_text n_results w of
        (Inr r, w1) \<Rightarrow> (Inr r, w1)
      | (Inl e, w1) \<Rightarrow> (Inr None, print (''Error running query: '' @ str_exn e) w1))"

text \<open>
  The body of the \<^verbatim>\<open>try\<close> of \<^verbatim>\<open>run_filtered_query\<close>.  The bare \<^verbatim>\<open>return\<close> of the
  branch for an empty first result list returns \<^verbatim>\<open>None\<close>.
\<close>

definition run_filtered_query_try ::
  "'f env \<Rightarrow> http_client \<Rightarrow> string \<Rightarrow> string \<Rightarrow> string \<Rightarrow> string \<Rightarrow> int \<Rightarrow> 'f world
     \<Rightarrow> (exn + 'f query_result option) \<times> 'f world" where
  "run_filtered_query_try env cl collection_name query_text filter_key filter_value n_results w =
     (case remote_get_collection env cl collection_name w of
        (Inl e, w1) \<Rightarrow> (Inl e, w1)
      | (Inr coll, w1) \<Rightarrow>
          (let where_filter = [(filter_key, PStr filter_value)]
           in case collection_query env coll (QStr query_text) n_results (Some where_filter) None w1 of
                (Inl e, w2) \<Rightarrow> (Inl e, w2)
              | (Inr results, w2) \<Rightarrow>
                  (let w3 = print (''Top '' @ str_int n_results @ '' results:'')
                              (print (CHR 0x0A # ''Filtered Query: '' @ sq query_text @ '' where ''
                                        @ filter_key @ ''='' @ sq filter_value) w2)
                   in case index0 (documents results) of
                        Inl e \<Rightarrow> (Inl e, w3)
                      | Inr docs \<Rightarrow>
                          (if docs = [] then (Inr None, print ''No matching documents found'' w3)
                           else
                             (case result_rows results of
                                Inl e \<Rightarrow> (Inl e, w3)
                              | Inr rows \<Rightarrow> (Inr (Some results), results_loop env rows 1 w3))))))"

definition run_filtered_query ::
  "'f env \<Rightarrow> http_client \<Rightarrow> string \<Rightarrow> string \<Rightarrow> string \<Rightarrow> string \<Rightarrow> int \<Rightarrow> 'f world
     \<Rightarrow> (abort + 'f query_result option) \<times> 'f world" where
  "run_filtered_query env cl collection_name query_text filter_key filter_value n_results w =
     (case run_filtered_query_try env cl collection_name query_text filter_key filter_value n_results w of
        (Inr r, w1) \<Rightarrow> (Inr r, w1)
      | (Inl e, w1) \<Rightarrow> (Inr None, print (''Error running filtered query: '' @ str_exn e) w1))"

text \<open>The parsed command line: \<^verbatim>\<open>--host\<close>, \<^verbatim>\<open>--port\<close>, \<^verbatim>\<open>--collection\<close>, \<^verbatim>\<open>--query\<close>.\<close>

record args =
  arg_host :: string
  arg_port :: int
  arg_collection :: string
  arg_query :: string

definition default_args :: args where
  "default_args = \<lparr>arg_host = ''localhost'', arg_port = 8000,
                    arg_collection = ''sample_collection'', arg_query = ''space''\<rparr>"

text \<open>\<^verbatim>\<open>main\<close> of \<^verbatim>\<open>local_client.py\<close>, after \<^verbatim>\<open>parse_args\<close>.\<close>

definition local_client_main :: "'f env \<Rightarrow> args \<Rightarrow> 'f world \<Rightarrow> (abort + unit) \<times> 'f world" where
  "local_client_main env a w =
     (case connect_to_chroma env (arg_host a) (arg_port a) w of
        (Inl ab, w1) \<Rightarrow> (Inl ab, w1)
      | (Inr cl, w1) \<Rightarrow>
          (case list_collections env cl w1 of
             (Inl ab, w2) \<Rightarrow> (Inl ab, w2)
           | (Inr [], w2) \<Rightarrow>
               (Inl (SystemExit 1),
                print ''No collections found. Has the database been initialized with data?'' w2)
           | (Inr (first # others), w2) \<Rightarrow>
               (let collection_name =
                      (if arg_collection a \<in> set (first # others) then arg_collection a else first)
                in case get_collection_info env cl collection_name w2 of
                     (Inl ab, w3) \<Rightarrow> (Inl ab, w3)
                   | (Inr info, w3) \<Rightarrow>
                       (if info = [] then
                          (Inl (SystemExit 1),
                           print (''Could not access collection '' @ sq collection_name) w3)
                        else
                          (case run_basic_query env cl collection_name (arg_query a) 3 w3 of
                             (Inl ab, w4) \<Rightarrow> (Inl ab, w4)
                           | (Inr r, w4) \<Rightarrow> (Inr (), w4))))))"

text \<open>The exit status of the process: that of \<^verbatim>\<open>SystemExit\<close>, 1 after a traceback, 0 otherwise.\<close>

definition exit_status :: "abort + unit \<Rightarrow> int" where
  "exit_status r = (case r of Inr u \<Rightarrow> 0 | Inl (SystemExit n) \<Rightarrow> n | Inl (Uncaught e) \<Rightarrow> 1)"

section \<open>Notions the properties are stated with\<close>

text \<open>The remote calls and sleeps made between two worlds.\<close>

definition emitted :: "'f world \<Rightarrow> 'f world \<Rightarrow> 'f event list" where
  "emitted w w' = drop (length (trace w)) (trace w')"

text \<open>
  The exception with which connection attempt number \<open>k\<close> fails, if it fails: that of
  the constructor, or else that of the heartbeat on the handle it built.
\<close>

definition attempt_exn :: "'f env \<Rightarrow> nat \<Rightarrow> exn option" where
  "attempt_exn env k =
     (case fails env OpHttpClient k of Some e \<Rightarrow> Some e | None \<Rightarrow> fails env OpHeartbeat k)"

definition is_sleep :: "'f event \<Rightarrow> bool" where
  "is_sleep ev = (case ev of Sleep d \<Rightarrow> True | _ \<Rightarrow> False)"

text \<open>The remote calls of connection attempt number \<open>k\<close> of client \<open>c\<close>.\<close>

definition attempt_events :: "'f env \<Rightarrow> ChromaDBClient \<Rightarrow> nat \<Rightarrow> 'f event list" where
  "attempt_events env c k =
     CallHttpClient (host c) (port c) # (if fails env OpHttpClient k = None then [CallHeartbeat] else [])"



text \<open>
  The calls of a \<^verbatim>\<open>_connect\<close> that succeeds: constructor calls, heartbeats and sleeps of
  \<open>retry_delay\<close> only, beginning with the constructor and ending with a heartbeat.
\<close>

definition is_reconnection :: "ChromaDBClient \<Rightarrow> 'f event list \<Rightarrow> bool" where
  "is_reconnection c R =
     (R \<noteq> [] \<and> hd R = CallHttpClient (host c) (port c) \<and> last R = CallHeartbeat
      \<and> list_all (\<lambda>ev. ev = CallHttpClient (host c) (port c) \<or> ev = CallHeartbeat
                        \<or> ev = Sleep (retry_delay c)) R)"

text \<open>
  When the info lookup of \<^verbatim>\<open>main\<close> succeeds for a collection the service holds: the
  lookup of the collection and the count are answered and, when the count is positive, so
  is the peek, and every row of the sample has a document.
\<close>

definition sample_printable :: "(string \<times> string option \<times> pydict option) list \<Rightarrow> bool" where
  "sample_printable rows = list_all (\<lambda>(doc_id, doc, metadata). doc \<noteq> None) rows"

definition info_lookup_succeeds :: "'f env \<Rightarrow> 'f world \<Rightarrow> bool" where
  "info_lookup_succeeds env w =
     (fails env OpGetCollection (ncalls w OpGetCollection) = None
      \<and> fails env OpCount (ncalls w OpCount) = None
      \<and> (if count_ret env (ncalls w OpCount) > 0
          then fails env OpPeek (ncalls w OpPeek) = None
               \<and> sample_printable (sample_rows (peek_ret env (ncalls w OpPeek)))
          else True))"

subsection \<open>Concrete services, worlds and clients\<close>

text \<open>A service that answers every call, one whose heartbeat always fails, and one that
  refuses every get-or-create; the world before any call; a client object before and after
  a connection.\<close>

definition service_up :: "int env" where
  "service_up =
     \<lparr>fails = (\<lambda>opn k. None),
      missing_collection = (\<lambda>name. Exc ''ValueError'' (''Collection '' @ name @ '' does not exist.'')),
      count_ret = (\<lambda>k. 0),
      peek_ret = (\<lambda>k. \<lparr>peek_ids = [], peek_documents = [], peek_metadatas = []\<rparr>),
      query_ret = (\<lambda>k. \<lparr>documents = [[]], metadatas = [[]], distances = [[]]\<rparr>),
      uuid4_str = (\<lambda>k. ''uuid-'' @ str_nat k),
      repr_dict = (\<lambda>d. ''{}''),
      similarity_4f = (\<lambda>x. ''0.0000'')\<rparr>"

definition service_down :: "int env" where
  "service_down =
     service_up\<lparr>fails := (\<lambda>opn k. if opn = OpHeartbeat then Some (Exc ''Exception'' ''connection refused'') else None)\<rparr>"

definition empty_world :: "int world" where
  "empty_world = \<lparr>ncalls = (\<lambda>opn. 0), collections = [], trace = [], logs = [], out = []\<rparr>"

definition new_client :: "int \<Rightarrow> int \<Rightarrow> ChromaDBClient" where
  "new_client retries delay =
     \<lparr>host = ''chroma'', port = 8000, max_retries = retries, retry_delay = delay,
      client_settings = \<lparr>allow_reset = Some True, anonymized_telemetry = False,
                          chroma_api_impl = Some ''rest''\<rparr>,
      client = None\<rparr>"


definition service_rejecting :: "int env" where
  "service_rejecting =
     service_up\<lparr>fails := (\<lambda>opn k. if opn = OpGetOrCreate then Some (Exc ''Exception'' ''unavailable'') else None)\<rparr>"

definition handle0 :: http_client where
  "handle0 = \<lparr>hc_host = ''chroma'', hc_port = 8000,
               hc_settings = \<lparr>allow_reset = Some True, anonymized_telemetry = False,
                                chroma_api_impl = Some ''rest''\<rparr>,
               hc_id = 0\<rparr>"

definition connected_client :: "int \<Rightarrow> int \<Rightarrow> ChromaDBClient" where
  "connected_client retries delay = (new_client retries delay)\<lparr>client := Some handle0\<rparr>"

text \<open>A service on which every call of one operation fails, and a world whose service
  holds the sample collection or only another one.\<close>

definition service_failing :: "op \<Rightarrow> int env" where
  "service_failing bad =
     service_up\<lparr>fails := (\<lambda>opn k. if opn = bad then Some (Exc ''Exception'' ''unavailable'') else None)\<rparr>"

definition seeded_world :: "int world" where
  "seeded_world = empty_world\<lparr>collections := [''sample_collection'']\<rparr>"

definition other_world :: "int world" where
  "other_world = empty_world\<lparr>collections := [''other'']\<rparr>"


definition service_flaky :: "int env" where
  "service_flaky =
     service_up\<lparr>fails := (\<lambda>opn k. if opn = OpGetOrCreate \<and> k = 0
                                    then Some (Exc ''Exception'' ''unavailable'') else None)\<rparr>"

definition service_same_uuid :: "int env" where
  "service_same_uuid = service_up\<lparr>uuid4_str := (\<lambda>k. ''same'')\<rparr>"

definition service_blank_record :: "int env" where
  "service_blank_record =
     service_up\<lparr>count_ret := (\<lambda>k. 1),
                peek_ret := (\<lambda>k. \<lparr>peek_ids = [''id1''], peek_documents = [None],
                                    peek_metadatas = [None]\<rparr>)\<rparr>"

section \<open>What the helpers of the script leave unchanged\<close>

lemma results_loop_frame [simp]:
  "trace (results_loop env rows i w) = trace w"
  "ncalls (results_loop env rows i w) = ncalls w"
  "collections (results_loop env rows i w) = collections w"
  by (induction env rows i w rule: results_loop.induct) (simp_all add: print_def)

lemma sample_loop_frame [simp]:
  "trace (snd (sample_loop env rows i w)) = trace w"
  "ncalls (snd (sample_loop env rows i w)) = ncalls w"
  "collections (snd (sample_loop env rows i w)) = collections w"
  by (induction env rows i w rule: sample_loop.induct)
     (simp_all add: print_def Let_def split: option.splits)

lemma sample_loop_result:
  "(\<exists>u. fst (sample_loop env rows i w) = Inr u) = sample_printable rows"
  by (induction env rows i w rule: sample_loop.induct)
     (simp_all add: sample_printable_def Let_def split: option.splits)

lemma print_frame [simp]:
  "trace (print line w) = trace w" "ncalls (print line w) = ncalls w"
  "collections (print line w) = collections w" "logs (print line w) = logs w"
  "out (print line w) = out w @ [line]"
  by (simp_all add: print_def)

lemma logger_frame [simp]:
  "trace (logger lv msg w) = trace w" "ncalls (logger lv msg w) = ncalls w"
  "collections (logger lv msg w) = collections w" "out (logger lv msg w) = out w"
  "logs (logger lv msg w) = logs w @ [(lv, msg)]"
  by (simp_all add: logger_def)

lemma tick_frame [simp]:
  "trace (tick opn ev w) = trace w @ [ev]"
  "ncalls (tick opn ev w) = (ncalls w)(opn := Suc (ncalls w opn))"
  "collections (tick opn ev w) = collections w" "logs (tick opn ev w) = logs w"
  "out (tick opn ev w) = out w"
  by (simp_all add: tick_def)

lemma remote_get_collection_ok:
  assumes "fails env OpGetCollection (ncalls v OpGetCollection) = None" and "name \<in> set (collections v)"
  shows "remote_get_collection env cl name v
           = (Inr (Collection name), tick OpGetCollection (CallGetCollection name) v)"
  using assms by (simp add: remote_get_collection_def Let_def)

lemma collection_query_eq:
  "collection_query env coll qt n wh whd v =
     ((case fails env OpQuery (ncalls v OpQuery) of Some e \<Rightarrow> Inl e
       | None \<Rightarrow> Inr (query_ret env (ncalls v OpQuery))),
      tick OpQuery (CallQuery coll qt n wh whd) v)"
  by (simp add: collection_query_def Let_def split: option.splits)

lemma run_basic_query_trace:
  assumes "fails env OpGetCollection (ncalls v OpGetCollection) = None" and "name \<in> set (collections v)"
  shows "trace (snd (run_basic_query env cl name s n v))
           = trace v @ [CallGetCollection name, CallQuery (Collection name) (QStr s) n None None]"
  by (simp add: run_basic_query_def run_basic_query_try_def remote_get_collection_ok [OF assms]
        collection_query_eq Let_def split: option.splits sum.splits)

lemma run_filtered_query_trace:
  assumes "fails env OpGetCollection (ncalls v OpGetCollection) = None" and "name \<in> set (collections v)"
  shows "trace (snd (run_filtered_query env cl name s k x n v))
           = trace v @ [CallGetCollection name,
                        CallQuery (Collection name) (QStr s) n (Some [(k, PStr x)]) None]"
  by (simp add: run_filtered_query_def run_filtered_query_try_def remote_get_collection_ok [OF assms]
        collection_query_eq Let_def split: option.splits sum.splits)

section \<open>The connection retry loop\<close>

declare connect_loop.simps [simp del] goc_loop.simps [simp del] str_nat.simps [simp del]










lemma filter_sleep_attempt [simp]: "filter is_sleep (attempt_events env c k) = []"
  by (simp add: attempt_events_def is_sleep_def)

lemma filter_client_attempt [simp]:
  "filter (\<lambda>ev. ev = CallHttpClient (host c) (port c)) (attempt_events env c k) = [CallHttpClient (host c) (port c)]"
  by (simp add: attempt_events_def)













section \<open>The retry loop of get-or-create\<close>


lemma goc_try_ok:
  assumes "fails env OpGetOrCreate (ncalls w OpGetOrCreate) = None"
  shows "\<exists>w1. goc_try env name md (Some h) w = (Inr (Collection name), w1)
           \<and> trace w1 = trace w @ [CallGetOrCreate name md]
           \<and> ncalls w1 OpQuery = ncalls w OpQuery
           \<and> ncalls w1 OpAdd = ncalls w OpAdd
           \<and> ncalls w1 OpUuid4 = ncalls w OpUuid4
           \<and> collections w1 = (if name \<in> set (collections w) then collections w else collections w @ [name])"
  using assms
  by (simp add: goc_try_def remote_get_or_create_def tick_def Let_def logger_def)






lemma is_reconnection_once [simp]:
  "is_reconnection c [CallHttpClient (host c) (port c), CallHeartbeat]"
  by (simp add: is_reconnection_def)

lemma is_reconnection_client [simp]:
  "is_reconnection (c\<lparr>client := cl\<rparr>) R = is_reconnection c R"
  by (simp add: is_reconnection_def)







lemma goc_loop_ok:
  assumes "int a < max_retries c"
    and "fails env OpGetOrCreate (ncalls w OpGetOrCreate) = None"
  shows "\<exists>w1. goc_loop env c name md (int a) (Some h) w = (Inr (Some (Collection name)), Some h, w1)
           \<and> trace w1 = trace w @ [CallGetOrCreate name md]
           \<and> ncalls w1 OpQuery = ncalls w OpQuery
           \<and> ncalls w1 OpAdd = ncalls w OpAdd
           \<and> ncalls w1 OpUuid4 = ncalls w OpUuid4
           \<and> collections w1 = (if name \<in> set (collections w) then collections w else collections w @ [name])"
proof -
  from goc_try_ok [OF assms(2), of name md h] obtain w1 where
    t: "goc_try env name md (Some h) w = (Inr (Collection name), w1)"
    and f: "trace w1 = trace w @ [CallGetOrCreate name md]"
           "ncalls w1 OpQuery = ncalls w OpQuery"
           "ncalls w1 OpAdd = ncalls w OpAdd"
           "ncalls w1 OpUuid4 = ncalls w OpUuid4"
           "collections w1 = (if name \<in> set (collections w) then collections w else collections w @ [name])"
    by blast
  show ?thesis
    apply (rule exI [of _ w1])
    using assms(1) t f
    by (subst goc_loop.simps) simp
qed





















section \<open>A client without retries\<close>

text \<open>
  C10.  With \<open>max_retries \<le> 0\<close> the loops of \<^verbatim>\<open>_connect\<close> and
  \<^verbatim>\<open>get_or_create_collection\<close> run zero times: the constructor returns an object whose
  handle is \<^verbatim>\<open>None\<close>, \<^verbatim>\<open>get_or_create_collection\<close> returns \<^verbatim>\<open>None\<close>, and neither
  raises nor changes the world (no remote call, no sleep, no log record).
\<close>

theorem no_retries_no_contact:
  assumes "retries \<le> 0" and "max_retries c \<le> 0"
  shows "ChromaDBClient_init env h p retries delay reset telemetry w =
           (Inr \<lparr>host = h, port = p, max_retries = retries, retry_delay = delay,
                  client_settings = \<lparr>allow_reset = Some reset, anonymized_telemetry = telemetry,
                                      chroma_api_impl = Some ''rest''\<rparr>,
                  client = None\<rparr>, w)
         \<and> ChromaDBClient_connect env c w = (Inr (), c, w)
         \<and> get_or_create_collection env c name md w = (Inr None, c, w)"
  using assms
  by (simp add: ChromaDBClient_init_def ChromaDBClient_connect_def get_or_create_collection_def
        connect_loop.simps goc_loop.simps)

theorem no_retries_no_contact_witness:
  "(0::int) \<le> 0 \<and> max_retries (new_client 0 2) \<le> 0
   \<and> ChromaDBClient_init service_down ''chroma'' 8000 0 2 True False empty_world
       = (Inr (new_client 0 2), empty_world)
   \<and> client (new_client 0 2) = None
   \<and> ChromaDBClient_connect service_down (new_client 0 2) empty_world = (Inr (), new_client 0 2, empty_world)
   \<and> get_or_create_collection service_down (new_client 0 2) ''docs'' None empty_world
       = (Inr None, new_client 0 2, empty_world)"
  using no_retries_no_contact [where retries = 0 and env = service_down and h = "''chroma''" and p = 8000
          and delay = 2 and reset = True and telemetry = False and w = empty_world
          and c = "new_client 0 2" and name = "''docs''" and md = None]
  by (simp add: new_client_def)

section \<open>Generated identifiers\<close>

lemma uuid_ids_eq:
  "uuid_ids env n w =
     (map (uuid4_str env) [ncalls w OpUuid4..<ncalls w OpUuid4 + n],
      w\<lparr>ncalls := (ncalls w)(OpUuid4 := ncalls w OpUuid4 + n)\<rparr>)"
proof (induction n arbitrary: w)
  case 0
  show ?case by simp
next
  case (Suc n)
  have l: "[ncalls w OpUuid4..<Suc (ncalls w OpUuid4 + n)]
             = ncalls w OpUuid4 # [Suc (ncalls w OpUuid4)..<Suc (ncalls w OpUuid4 + n)]"
    by (rule upt_conv_Cons) simp
  show ?case
    apply (simp add: uuid4_def Suc.IH l del: upt_Suc)
    apply (rule world.equality; simp add: fun_eq_iff)
    done
qed

text \<open>
  C3.  When \<^verbatim>\<open>get_or_create_collection\<close> raises, \<^verbatim>\<open>add_documents\<close> raises the same exception
  and draws no identifier.  When it returns, \<^verbatim>\<open>add_documents\<close> with \<^verbatim>\<open>ids=None\<close> draws
  exactly one \<^verbatim>\<open>uuid.uuid4\<close> string per document, in order, and passes them to
  \<^verbatim>\<open>collection.add\<close>: the list of ids is as long as the list of documents, and it is pairwise
  distinct exactly when these draws are; the code compares no identifiers.  Without a
  collection (\<open>max_retries \<le> 0\<close>) the identifiers are drawn and \<^verbatim>\<open>AttributeError\<close> is raised.
\<close>

theorem add_documents_generated_ids:
  "case get_or_create_collection env c name None w of
     (Inl e, c1, w1) \<Rightarrow> add_documents env c name docs metas None embs w = (Inl e, c1, w1)
   | (Inr coll, c1, w1) \<Rightarrow>
       (case add_documents env c name docs metas None embs w of (r, c2, w2) \<Rightarrow>
          (let u0 = ncalls w1 OpUuid4; ids = map (uuid4_str env) [u0..<u0 + length docs]
           in ncalls w2 OpUuid4 = u0 + length docs
              \<and> length ids = length docs
              \<and> distinct ids = inj_on (uuid4_str env) {u0..<u0 + length docs}
              \<and> (case coll of
                    Some cn \<Rightarrow> emitted w1 w2 = [CallAdd cn docs metas ids embs]
                  | None \<Rightarrow> r = Inl (none_has_no_attribute ''add'') \<and> emitted w1 w2 = [])))"
proof -
  obtain r0 c1 w1 where g: "get_or_create_collection env c name None w = (r0, c1, w1)"
    by (cases "get_or_create_collection env c name None w") auto
  have d: "distinct (map (uuid4_str env) [ncalls w1 OpUuid4..<ncalls w1 OpUuid4 + length docs])
             = inj_on (uuid4_str env) {ncalls w1 OpUuid4..<ncalls w1 OpUuid4 + length docs}"
    by (simp add: distinct_map)
  show ?thesis
  proof (cases r0)
    case (Inl e)
    then show ?thesis using g by (simp add: add_documents_def)
  next
    case (Inr coll)
    show ?thesis
      unfolding g Inr using d
      by (cases coll)
         (auto simp: add_documents_def g Inr add_try_def collection_add_def uuid_ids_eq tick_def
            logger_def emitted_def Let_def split: option.splits)
  qed
qed

theorem add_documents_generated_ids_witness:
  "emitted empty_world
        (snd (snd (add_documents service_up (connected_client 5 2) ''docs'' [''a'', ''b''] None None None empty_world)))
       = [CallGetOrCreate ''docs'' None,
          CallAdd (Collection ''docs'') [''a'', ''b''] None [''uuid-0'', ''uuid-1''] None]
   \<and> ncalls (snd (snd (add_documents service_up (connected_client 5 2) ''docs'' [''a'', ''b''] None None None empty_world)))
        OpUuid4 = 2
   \<and> inj_on (uuid4_str service_up) {0..<2}"
proof -
  define w1 where "w1 = snd (snd (get_or_create_collection service_up (connected_client 5 2) ''docs'' None empty_world))"
  have g: "get_or_create_collection service_up (connected_client 5 2) ''docs'' None empty_world
     = (Inr (Some (Collection ''docs'')), connected_client 5 2, w1)"
    unfolding w1_def
    by (simp add: get_or_create_collection_def goc_loop.simps goc_try_def remote_get_or_create_def
          connected_client_def new_client_def service_up_def Let_def)
  have u: "ncalls w1 OpUuid4 = 0" and t: "trace w1 = [CallGetOrCreate ''docs'' None]"
    unfolding w1_def
    by (simp_all add: get_or_create_collection_def goc_loop.simps goc_try_def remote_get_or_create_def
          connected_client_def new_client_def service_up_def Let_def tick_def logger_def empty_world_def)
  have v: "str_nat 0 = ''0''" "str_nat (Suc 0) = ''1''" by (simp_all add: str_nat.simps)
  define w2 where "w2 = snd (snd (add_documents service_up (connected_client 5 2) ''docs'' [''a'', ''b''] None None None empty_world))"
  have f: "ncalls w2 OpUuid4 = Suc (Suc 0)
           \<and> (uuid4_str service_up 0 \<noteq> uuid4_str service_up (Suc 0))
               = inj_on (uuid4_str service_up) {0..<Suc (Suc 0)}
           \<and> emitted w1 w2 = [CallAdd (Collection ''docs'') [''a'', ''b''] None
                                  [uuid4_str service_up 0, uuid4_str service_up (Suc 0)] None]"
    using add_documents_generated_ids [where env = service_up and c = "connected_client 5 2"
        and name = "''docs''" and w = empty_world and docs = "[''a'', ''b'']" and metas = None
        and embs = None]
    unfolding g by (simp add: case_prod_unfold Let_def u w2_def upt_conv_Cons)
  have m: "uuid4_str service_up 0 = ''uuid-0''" "uuid4_str service_up (Suc 0) = ''uuid-1''"
    by (simp_all add: service_up_def v)
  have i: "inj_on (uuid4_str service_up) {0..<2}"
    using f unfolding m by (simp add: numeral_2_eq_2)
  have tr: "trace w2 = trace w1 @ emitted w1 w2"
    unfolding w2_def w1_def
    by (simp add: emitted_def add_documents_def add_try_def collection_add_def uuid_ids_eq
          get_or_create_collection_def goc_loop.simps goc_try_def remote_get_or_create_def
          connected_client_def new_client_def service_up_def Let_def tick_def logger_def empty_world_def)
  have e: "emitted empty_world w2 = trace w2" by (simp add: emitted_def empty_world_def)
  show ?thesis
    unfolding w2_def [symmetric] using f i e tr t m by simp
qed

text \<open>
  The claim C3 fails in two ways.  The identifiers are as distinct as the draws of
  \<^verbatim>\<open>uuid.uuid4\<close>, which the code does not compare: when a draw repeats, the repeated
  identifier is passed to \<^verbatim>\<open>collection.add\<close>.  And when \<^verbatim>\<open>get_or_create_collection\<close> raises,
  which it does before the \<^verbatim>\<open>try\<close> block, no identifier is generated at all.
\<close>

theorem add_documents_ids_claim_fails:
  "emitted empty_world
        (snd (snd (add_documents service_same_uuid (connected_client 5 2) ''docs'' [''a'', ''b''] None None None empty_world)))
       = [CallGetOrCreate ''docs'' None,
          CallAdd (Collection ''docs'') [''a'', ''b''] None [''same'', ''same''] None]
   \<and> fst (add_documents service_same_uuid (connected_client 5 2) ''docs'' [''a'', ''b''] None None None empty_world)
       = Inr ()
   \<and> \<not> distinct [''same'', ''same'']
   \<and> fst (add_documents service_rejecting (connected_client 1 2) ''docs'' [''a''] None None None empty_world)
       = Inl (Exc ''Exception'' ''unavailable'')
   \<and> ncalls (snd (snd (add_documents service_rejecting (connected_client 1 2) ''docs'' [''a''] None None None empty_world)))
        OpUuid4 = 0"
  by (simp add: add_documents_def add_try_def collection_add_def uuid4_def
        get_or_create_collection_def goc_loop.simps goc_try_def remote_get_or_create_def
        tick_def logger_def emitted_def Let_def connected_client_def new_client_def
        service_same_uuid_def service_rejecting_def service_up_def empty_world_def)

section \<open>Operations on a collection that does not exist yet\<close>

lemma get_or_create_first_ok:
  assumes "1 \<le> max_retries c" and "client c = Some h"
    and "fails env OpGetOrCreate (ncalls w OpGetOrCreate) = None"
  shows "\<exists>w1. get_or_create_collection env c name md w = (Inr (Some (Collection name)), c, w1)
           \<and> trace w1 = trace w @ [CallGetOrCreate name md]
           \<and> ncalls w1 OpQuery = ncalls w OpQuery
           \<and> ncalls w1 OpAdd = ncalls w OpAdd
           \<and> ncalls w1 OpUuid4 = ncalls w OpUuid4
           \<and> collections w1 = (if name \<in> set (collections w) then collections w else collections w @ [name])"
proof -
  have a: "int 0 < max_retries c" using assms(1) by simp
  from goc_loop_ok [OF a assms(3), of name md h] obtain w1 where
    r: "goc_loop env c name md (int 0) (Some h) w = (Inr (Some (Collection name)), Some h, w1)"
    and f: "trace w1 = trace w @ [CallGetOrCreate name md]"
           "ncalls w1 OpQuery = ncalls w OpQuery"
           "ncalls w1 OpAdd = ncalls w OpAdd"
           "ncalls w1 OpUuid4 = ncalls w OpUuid4"
           "collections w1 = (if name \<in> set (collections w) then collections w else collections w @ [name])"
    by blast
  have "c\<lparr>client := Some h\<rparr> = c" using assms(2) by simp
  then show ?thesis
    apply (intro exI [of _ w1])
    using r f assms(2) by (simp add: get_or_create_collection_def)
qed

lemma add_try_some:
  "add_try env (Some cn) cname docs metas ids embs w1 = (r, w2) \<Longrightarrow>
     (let u0 = ncalls w1 OpUuid4;
          ids1 = (case ids of Some given \<Rightarrow> given | None \<Rightarrow> map (uuid4_str env) [u0..<u0 + length docs])
      in trace w2 = trace w1 @ [CallAdd cn docs metas ids1 embs]
         \<and> collections w2 = collections w1
         \<and> r = (case fails env OpAdd (ncalls w1 OpAdd) of Some e \<Rightarrow> Inl e | None \<Rightarrow> Inr ()))"
  by (auto simp: add_try_def collection_add_def uuid_ids_eq tick_def logger_def Let_def
        split: option.splits)

lemma query_try_some:
  "query_try env (Some cn) cname qt n wh whd w1 = (r, w2) \<Longrightarrow>
     trace w2 = trace w1 @ [CallQuery cn (case qt of QStr s \<Rightarrow> QList [s] | QList l \<Rightarrow> QList l) n wh whd]
     \<and> collections w2 = collections w1
     \<and> r = (case fails env OpQuery (ncalls w1 OpQuery) of Some e \<Rightarrow> Inl e
                | None \<Rightarrow> Inr (query_ret env (ncalls w1 OpQuery)))"
  by (auto simp: query_try_def collection_query_def tick_def logger_def Let_def
        split: option.splits)

text \<open>
  C8.  On a connected client with \<open>max_retries \<ge> 1\<close>, \<^verbatim>\<open>add_documents\<close> and
  \<^verbatim>\<open>query_collection\<close> both begin with get-or-create on the named collection.  When the
  service does not hold a collection of that name and answers the call, the name is
  registered, the add or the query is dispatched on the new collection, and the result is
  that of the add or the query: a query of a collection that did not exist reaches a new
  collection to which nothing was added, and no missing-collection error arises.
\<close>

theorem operations_create_missing_collection:
  assumes "1 \<le> max_retries c" and "client c = Some h"
    and "fails env OpGetOrCreate (ncalls w OpGetOrCreate) = None"
    and "name \<notin> set (collections w)"
  shows "(case add_documents env c name docs metas ids embs w of (r, c', w') \<Rightarrow>
            emitted w w' =
              [CallGetOrCreate name None,
               CallAdd (Collection name) docs metas
                 (case ids of Some given \<Rightarrow> given
                  | None \<Rightarrow> map (uuid4_str env) [ncalls w OpUuid4..<ncalls w OpUuid4 + length docs])
                 embs]
            \<and> collections w' = collections w @ [name]
            \<and> r = (case fails env OpAdd (ncalls w OpAdd) of Some e \<Rightarrow> Inl e | None \<Rightarrow> Inr ()))
       \<and> (case query_collection env c name qt n wh whd w of (r, c', w') \<Rightarrow>
            emitted w w' =
              [CallGetOrCreate name None,
               CallQuery (Collection name) (case qt of QStr s \<Rightarrow> QList [s] | QList l \<Rightarrow> QList l) n wh whd]
            \<and> collections w' = collections w @ [name]
            \<and> r = (case fails env OpQuery (ncalls w OpQuery) of Some e \<Rightarrow> Inl e
                       | None \<Rightarrow> Inr (query_ret env (ncalls w OpQuery))))"
proof -
  from get_or_create_first_ok [OF assms(1,2,3), of name None] assms(4) obtain w1 where
    g: "get_or_create_collection env c name None w = (Inr (Some (Collection name)), c, w1)"
    and f: "trace w1 = trace w @ [CallGetOrCreate name None]"
           "ncalls w1 OpQuery = ncalls w OpQuery"
           "ncalls w1 OpAdd = ncalls w OpAdd"
           "ncalls w1 OpUuid4 = ncalls w OpUuid4"
           "collections w1 = collections w @ [name]"
    by auto
  obtain ra wa where a: "add_try env (Some (Collection name)) name docs metas ids embs w1 = (ra, wa)"
    by (cases "add_try env (Some (Collection name)) name docs metas ids embs w1") auto
  obtain rq wq where q: "query_try env (Some (Collection name)) name qt n wh whd w1 = (rq, wq)"
    by (cases "query_try env (Some (Collection name)) name qt n wh whd w1") auto
  have A: "case add_documents env c name docs metas ids embs w of (r, c', w') \<Rightarrow>
            emitted w w' =
              [CallGetOrCreate name None,
               CallAdd (Collection name) docs metas
                 (case ids of Some given \<Rightarrow> given
                  | None \<Rightarrow> map (uuid4_str env) [ncalls w OpUuid4..<ncalls w OpUuid4 + length docs])
                 embs]
            \<and> collections w' = collections w @ [name]
            \<and> r = (case fails env OpAdd (ncalls w OpAdd) of Some e \<Rightarrow> Inl e | None \<Rightarrow> Inr ())"
    using add_try_some [OF a] g a f
    by (cases ra) (auto simp: add_documents_def Let_def emitted_def logger_def split: option.splits)
  have Q: "case query_collection env c name qt n wh whd w of (r, c', w') \<Rightarrow>
            emitted w w' =
              [CallGetOrCreate name None,
               CallQuery (Collection name) (case qt of QStr s \<Rightarrow> QList [s] | QList l \<Rightarrow> QList l) n wh whd]
            \<and> collections w' = collections w @ [name]
            \<and> r = (case fails env OpQuery (ncalls w OpQuery) of Some e \<Rightarrow> Inl e
                       | None \<Rightarrow> Inr (query_ret env (ncalls w OpQuery)))"
    using query_try_some [OF q] g q f
    by (cases rq) (auto simp: query_collection_def Let_def emitted_def logger_def split: option.splits)
  show ?thesis using A Q by blast
qed

theorem operations_create_missing_collection_witness:
  "1 \<le> max_retries (connected_client 5 2) \<and> client (connected_client 5 2) = Some handle0
   \<and> fails service_up OpGetOrCreate (ncalls empty_world OpGetOrCreate) = None
   \<and> ''docs'' \<notin> set (collections empty_world)
   \<and> collections (snd (snd (add_documents service_up (connected_client 5 2) ''docs'' [''a''] None
                              (Some [''id1'']) None empty_world))) = [''docs'']
   \<and> fst (query_collection service_up (connected_client 5 2) ''docs'' (QStr ''space'') 3 None None empty_world)
       = Inr \<lparr>documents = [[]], metadatas = [[]], distances = [[]]\<rparr>
   \<and> emitted empty_world
        (snd (snd (query_collection service_up (connected_client 5 2) ''docs'' (QStr ''space'') 3 None None
                     empty_world)))
       = [CallGetOrCreate ''docs'' None, CallQuery (Collection ''docs'') (QList [''space'']) 3 None None]
   \<and> collections
        (snd (snd (query_collection service_up (connected_client 5 2) ''docs'' (QStr ''space'') 3 None None
                     empty_world))) = [''docs'']"
  using operations_create_missing_collection [where c = "connected_client 5 2" and h = handle0
          and env = service_up and w = empty_world and name = "''docs''" and docs = "[''a'']"
          and metas = None and ids = "Some [''id1'']" and embs = None
          and qt = "QStr ''space''" and n = 3 and wh = None and whd = None]
  by (simp add: case_prod_unfold connected_client_def new_client_def service_up_def empty_world_def)

section \<open>How query text is dispatched\<close>

text \<open>
  C4, amended to the operation that wraps.  \<^verbatim>\<open>ChromaDBClient.query_collection\<close> turns a
  single query string into a one-element list before it calls \<^verbatim>\<open>collection.query\<close>;
  \<^verbatim>\<open>run_basic_query\<close> and \<^verbatim>\<open>run_filtered_query\<close> of the command-line script pass the string
  to \<^verbatim>\<open>collection.query\<close> as it is.
\<close>

theorem query_text_dispatch:
  assumes "get_or_create_collection env c name None w = (Inr (Some coll), c1, w1)"
    and "fails env OpGetCollection (ncalls v OpGetCollection) = None"
    and "name \<in> set (collections v)"
  shows "emitted w1 (snd (snd (query_collection env c name (QStr s) n wh whd w)))
           = [CallQuery coll (QList [s]) n wh whd]
       \<and> emitted v (snd (run_basic_query env cl name s n v))
           = [CallGetCollection name, CallQuery (Collection name) (QStr s) n None None]
       \<and> emitted v (snd (run_filtered_query env cl name s k x n v))
           = [CallGetCollection name, CallQuery (Collection name) (QStr s) n (Some [(k, PStr x)]) None]"
proof -
  have q: "emitted w1 (snd (snd (query_collection env c name (QStr s) n wh whd w)))
           = [CallQuery coll (QList [s]) n wh whd]"
    using assms(1)
    by (simp add: query_collection_def query_try_def collection_query_eq emitted_def
          split: option.splits sum.splits)
  show ?thesis
    using q run_basic_query_trace [OF assms(2,3)] run_filtered_query_trace [OF assms(2,3)]
    by (simp add: emitted_def)
qed

theorem query_text_dispatch_witness:
  "fails service_up OpGetCollection (ncalls seeded_world OpGetCollection) = None
   \<and> ''sample_collection'' \<in> set (collections seeded_world)
   \<and> emitted (snd (snd (get_or_create_collection service_up (connected_client 5 2) ''sample_collection'' None
                           seeded_world)))
        (snd (snd (query_collection service_up (connected_client 5 2) ''sample_collection'' (QStr ''space'') 3
                     None None seeded_world)))
       = [CallQuery (Collection ''sample_collection'') (QList [''space'']) 3 None None]
   \<and> emitted seeded_world
        (snd (run_filtered_query service_up handle0 ''sample_collection'' ''space'' ''source'' ''Space'' 1
                seeded_world))
       = [CallGetCollection ''sample_collection'',
          CallQuery (Collection ''sample_collection'') (QStr ''space'') 1
            (Some [(''source'', PStr ''Space'')]) None]"
proof -
  define w1 where "w1 = snd (snd (get_or_create_collection service_up (connected_client 5 2)
                                    ''sample_collection'' None seeded_world))"
  have g: "get_or_create_collection service_up (connected_client 5 2) ''sample_collection'' None seeded_world
     = (Inr (Some (Collection ''sample_collection'')), connected_client 5 2, w1)"
    unfolding w1_def
    by (simp add: get_or_create_collection_def goc_loop.simps goc_try_def remote_get_or_create_def
          connected_client_def new_client_def service_up_def Let_def)
  have a: "fails service_up OpGetCollection (ncalls seeded_world OpGetCollection) = None"
    by (simp add: service_up_def)
  have b: "''sample_collection'' \<in> set (collections seeded_world)"
    by (simp add: seeded_world_def empty_world_def)
  show ?thesis
    using query_text_dispatch [OF g a b, where s = "''space''" and n = 3 and wh = None and whd = None]
      query_text_dispatch [OF g a b, where s = "''space''" and n = 1 and k = "''source''" and x = "''Space''"]
      a b
    by (simp add: w1_def)
qed

text \<open>
  The claim C4 speaks of every query operation of the repository; \<^verbatim>\<open>run_basic_query\<close>
  dispatches the bare string, not the one-element list.
\<close>

theorem basic_query_passes_raw_string:
  "emitted seeded_world (snd (run_basic_query service_up handle0 ''sample_collection'' ''space'' 3 seeded_world))
     = [CallGetCollection ''sample_collection'',
        CallQuery (Collection ''sample_collection'') (QStr ''space'') 3 None None]
   \<and> CallQuery (Collection ''sample_collection'') (QList [''space'']) 3 None None
        \<notin> set (emitted seeded_world
                 (snd (run_basic_query service_up handle0 ''sample_collection'' ''space'' 3 seeded_world)))"
proof -
  have a: "fails service_up OpGetCollection (ncalls seeded_world OpGetCollection) = None"
    by (simp add: service_up_def)
  have b: "''sample_collection'' \<in> set (collections seeded_world)"
    by (simp add: seeded_world_def empty_world_def)
  show ?thesis
    using run_basic_query_trace [OF a b, where s = "''space''" and n = 3 and cl = handle0]
    by (simp add: emitted_def)
qed

section \<open>A filtered query that matches nothing\<close>

lemma run_filtered_query_never_raises:
  "\<exists>r. fst (run_filtered_query env cl name s k x n u) = Inr r"
  by (simp add: run_filtered_query_def split: prod.splits sum.splits)

text \<open>
  C5, amended to what the caller receives.  When the service answers a filtered query with
  an empty list of documents for the query, \<^verbatim>\<open>run_filtered_query\<close> raises nothing, prints
  \<^verbatim>\<open>No matching documents found\<close> and returns \<^verbatim>\<open>None\<close> (on no input does it raise);
  \<^verbatim>\<open>ChromaDBClient.query_collection\<close> called with a \<^verbatim>\<open>where\<close> filter returns the service's
  result as it is.
\<close>

theorem filtered_query_without_match:
  assumes "fails env OpGetCollection (ncalls v OpGetCollection) = None"
    and "name \<in> set (collections v)"
    and "fails env OpQuery (ncalls v OpQuery) = None"
    and "documents (query_ret env (ncalls v OpQuery)) = [] # rest"
    and "get_or_create_collection env c name None w = (Inr (Some coll), c1, w1)"
    and "fails env OpQuery (ncalls w1 OpQuery) = None"
  shows "fst (run_filtered_query env cl name s k x n v) = Inr None
       \<and> last (out (snd (run_filtered_query env cl name s k x n v))) = ''No matching documents found''
       \<and> (\<exists>r. fst (run_filtered_query env cl name s k x n u) = Inr r)
       \<and> fst (query_collection env c name qt n (Some wh) whd w) = Inr (query_ret env (ncalls w1 OpQuery))"
proof -
  have a: "fst (run_filtered_query env cl name s k x n v) = Inr None
       \<and> last (out (snd (run_filtered_query env cl name s k x n v))) = ''No matching documents found''"
    using assms(3,4)
    by (simp add: run_filtered_query_def run_filtered_query_try_def
          remote_get_collection_ok [OF assms(1,2)] collection_query_eq index0_def Let_def)
  have b: "fst (query_collection env c name qt n (Some wh) whd w) = Inr (query_ret env (ncalls w1 OpQuery))"
    using assms(5,6)
    by (simp add: query_collection_def query_try_def collection_query_eq)
  show ?thesis
    using a b run_filtered_query_never_raises by blast
qed

theorem filtered_query_without_match_witness:
  "fails service_up OpGetCollection (ncalls seeded_world OpGetCollection) = None
   \<and> ''sample_collection'' \<in> set (collections seeded_world)
   \<and> fails service_up OpQuery (ncalls seeded_world OpQuery) = None
   \<and> documents (query_ret service_up (ncalls seeded_world OpQuery)) = [] # []
   \<and> fst (run_filtered_query service_up handle0 ''sample_collection'' ''space'' ''source'' ''Nothing'' 3
             seeded_world) = Inr None
   \<and> last (out (snd (run_filtered_query service_up handle0 ''sample_collection'' ''space'' ''source''
                        ''Nothing'' 3 seeded_world))) = ''No matching documents found''
   \<and> fst (query_collection service_up (connected_client 5 2) ''sample_collection'' (QStr ''space'') 3
             (Some [(''source'', PStr ''Nothing'')]) None seeded_world)
       = Inr \<lparr>documents = [[]], metadatas = [[]], distances = [[]]\<rparr>"
proof -
  define w1 where "w1 = snd (snd (get_or_create_collection service_up (connected_client 5 2)
                                    ''sample_collection'' None seeded_world))"
  have g: "get_or_create_collection service_up (connected_client 5 2) ''sample_collection'' None seeded_world
     = (Inr (Some (Collection ''sample_collection'')), connected_client 5 2, w1)"
    unfolding w1_def
    by (simp add: get_or_create_collection_def goc_loop.simps goc_try_def remote_get_or_create_def
          connected_client_def new_client_def service_up_def Let_def)
  have a: "fails service_up OpGetCollection (ncalls seeded_world OpGetCollection) = None"
    and c: "fails service_up OpQuery (ncalls seeded_world OpQuery) = None"
    and d: "documents (query_ret service_up (ncalls seeded_world OpQuery)) = [] # []"
    and e: "fails service_up OpQuery (ncalls w1 OpQuery) = None"
    by (simp_all add: service_up_def)
  have b: "''sample_collection'' \<in> set (collections seeded_world)"
    by (simp add: seeded_world_def empty_world_def)
  show ?thesis
    using filtered_query_without_match [OF a b c d g e, where s = "''space''" and k = "''source''"
            and x = "''Nothing''" and n = 3 and cl = handle0 and qt = "QStr ''space''"
            and wh = "[(''source'', PStr ''Nothing'')]" and whd = None and u = seeded_world]
      a b c d
    by (simp add: service_up_def)
qed

text \<open>
  The claim C5 says the operation returns an empty result list; \<^verbatim>\<open>run_filtered_query\<close>
  returns \<^verbatim>\<open>None\<close>, not the result whose first list is empty.
\<close>

theorem filtered_query_returns_none:
  "documents (query_ret service_up 0) = [[]]
   \<and> fst (run_filtered_query service_up handle0 ''sample_collection'' ''space'' ''source'' ''Nothing'' 3
             seeded_world) = Inr None
   \<and> fst (run_filtered_query service_up handle0 ''sample_collection'' ''space'' ''source'' ''Nothing'' 3
             seeded_world) \<noteq> Inr (Some (query_ret service_up 0))"
  by (simp add: run_filtered_query_def run_filtered_query_try_def remote_get_collection_def
        collection_query_eq index0_def Let_def service_up_def seeded_world_def empty_world_def)

section \<open>Remote failures\<close>

lemma get_collection_info_never_raises:
  "\<exists>info. fst (get_collection_info env cl name w) = Inr info"
  by (simp add: get_collection_info_def split: prod.splits sum.splits)

lemma sample_loop_blank:
  "\<not> sample_printable rows \<Longrightarrow>
     fst (sample_loop env rows i w) = Inl (Exc ''TypeError'' (sq ''NoneType'' @ '' object is not subscriptable''))"
proof (induction env rows i w rule: sample_loop.induct)
  case (1 env idx w)
  then show ?case by (simp add: sample_printable_def)
next
  case (2 env doc_id doc metadata rest idx w)
  show ?case
  proof (cases doc)
    case None
    then show ?thesis by (simp add: Let_def)
  next
    case (Some d)
    with "2.prems" have np: "\<not> sample_printable rest" by (simp add: sample_printable_def)
    show ?thesis
      unfolding sample_loop.simps Let_def Some option.case
      using "2.IH" [OF refl Some np] .
  qed
qed

text \<open>
  C7.  \<^verbatim>\<open>get_collection_info\<close> never raises; when one of its remote calls fails (the lookup
  of the collection, a collection that does not exist, the count, or the peek), or a
  record of the sample has no document, it prints the error and returns the empty
  dictionary.  In \<^verbatim>\<open>add_documents\<close> and \<^verbatim>\<open>query_collection\<close> the call of
  \<^verbatim>\<open>get_or_create_collection\<close> stands before the \<^verbatim>\<open>try\<close>: what it raises reaches the caller
  unchanged, without the handler's log entry, and what it has retried with success is not
  raised at all.  When it returns a collection and \<^verbatim>\<open>collection.add\<close> or
  \<^verbatim>\<open>collection.query\<close> fails, the error is logged at level ERROR and the same exception is
  raised to the caller; when neither fails, the operation returns.  When it returns
  \<^verbatim>\<open>None\<close>, the \<^verbatim>\<open>AttributeError\<close> is logged and raised in the same way.
\<close>

theorem remote_failure_handling:
  "(\<exists>info. fst (get_collection_info env cl name w) = Inr info)
   \<and> ((fails env OpGetCollection (ncalls w OpGetCollection) = Some e
        \<or> fails env OpGetCollection (ncalls w OpGetCollection) = None \<and> name \<notin> set (collections w)
            \<and> e = missing_collection env name
        \<or> fails env OpGetCollection (ncalls w OpGetCollection) = None \<and> name \<in> set (collections w)
            \<and> fails env OpCount (ncalls w OpCount) = Some e
        \<or> fails env OpGetCollection (ncalls w OpGetCollection) = None \<and> name \<in> set (collections w)
            \<and> fails env OpCount (ncalls w OpCount) = None \<and> count_ret env (ncalls w OpCount) > 0
            \<and> fails env OpPeek (ncalls w OpPeek) = Some e
        \<or> fails env OpGetCollection (ncalls w OpGetCollection) = None \<and> name \<in> set (collections w)
            \<and> fails env OpCount (ncalls w OpCount) = None \<and> count_ret env (ncalls w OpCount) > 0
            \<and> fails env OpPeek (ncalls w OpPeek) = None
            \<and> \<not> sample_printable (sample_rows (peek_ret env (ncalls w OpPeek)))
            \<and> e = Exc ''TypeError'' (sq ''NoneType'' @ '' object is not subscriptable''))
       \<longrightarrow> fst (get_collection_info env cl name w) = Inr []
           \<and> last (out (snd (get_collection_info env cl name w)))
               = ''Error getting collection info: '' @ str_exn e)
   \<and> (get_or_create_collection env c cname None w = (Inl e, c1, w1)
       \<longrightarrow> add_documents env c cname docs metas ids embs w = (Inl e, c1, w1)
           \<and> query_collection env c cname qt n wh whd w = (Inl e, c1, w1))
   \<and> (get_or_create_collection env c cname None w = (Inr (Some coll), c1, w1)
        \<and> fails env OpAdd (ncalls w1 OpAdd) = Some e
       \<longrightarrow> fst (add_documents env c cname docs metas ids embs w) = Inl e
           \<and> last (logs (snd (snd (add_documents env c cname docs metas ids embs w))))
               = (ERROR, ''Failed to add documents: '' @ str_exn e))
   \<and> (get_or_create_collection env c cname None w = (Inr (Some coll), c1, w1)
        \<and> fails env OpAdd (ncalls w1 OpAdd) = None
       \<longrightarrow> fst (add_documents env c cname docs metas ids embs w) = Inr ())
   \<and> (get_or_create_collection env c cname None w = (Inr None, c1, w1)
       \<longrightarrow> fst (add_documents env c cname docs metas ids embs w) = Inl (none_has_no_attribute ''add'')
           \<and> last (logs (snd (snd (add_documents env c cname docs metas ids embs w))))
               = (ERROR, ''Failed to add documents: '' @ str_exn (none_has_no_attribute ''add''))
           \<and> fst (query_collection env c cname qt n wh whd w) = Inl (none_has_no_attribute ''query'')
           \<and> last (logs (snd (snd (query_collection env c cname qt n wh whd w))))
               = (ERROR, ''Failed to query collection: '' @ str_exn (none_has_no_attribute ''query'')))
   \<and> (get_or_create_collection env c cname None w = (Inr (Some coll), c1, w1)
        \<and> fails env OpQuery (ncalls w1 OpQuery) = Some e
       \<longrightarrow> fst (query_collection env c cname qt n wh whd w) = Inl e
           \<and> last (logs (snd (snd (query_collection env c cname qt n wh whd w))))
               = (ERROR, ''Failed to query collection: '' @ str_exn e))
   \<and> (get_or_create_collection env c cname None w = (Inr (Some coll), c1, w1)
        \<and> fails env OpQuery (ncalls w1 OpQuery) = None
       \<longrightarrow> fst (query_collection env c cname qt n wh whd w)
             = Inr (query_ret env (ncalls w1 OpQuery)))"
proof -
  have i: "fst (get_collection_info env cl name w) = Inr []
           \<and> last (out (snd (get_collection_info env cl name w)))
               = ''Error getting collection info: '' @ str_exn e"
    if "fails env OpGetCollection (ncalls w OpGetCollection) = Some e
        \<or> fails env OpGetCollection (ncalls w OpGetCollection) = None \<and> name \<notin> set (collections w)
            \<and> e = missing_collection env name
        \<or> fails env OpGetCollection (ncalls w OpGetCollection) = None \<and> name \<in> set (collections w)
            \<and> fails env OpCount (ncalls w OpCount) = Some e
        \<or> fails env OpGetCollection (ncalls w OpGetCollection) = None \<and> name \<in> set (collections w)
            \<and> fails env OpCount (ncalls w OpCount) = None \<and> count_ret env (ncalls w OpCount) > 0
            \<and> fails env OpPeek (ncalls w OpPeek) = Some e"
    using that
    by (auto simp: get_collection_info_def get_collection_info_try_def remote_get_collection_def
          collection_count_def collection_peek_def Let_def)
  have b: "fst (get_collection_info env cl name w) = Inr []
           \<and> last (out (snd (get_collection_info env cl name w)))
               = ''Error getting collection info: '' @ str_exn e"
    if h: "fails env OpGetCollection (ncalls w OpGetCollection) = None" "name \<in> set (collections w)"
         "fails env OpCount (ncalls w OpCount) = None" "count_ret env (ncalls w OpCount) > 0"
         "fails env OpPeek (ncalls w OpPeek) = None"
         "\<not> sample_printable (sample_rows (peek_ret env (ncalls w OpPeek)))"
         "e = Exc ''TypeError'' (sq ''NoneType'' @ '' object is not subscriptable'')"
  proof -
    define w4 where "w4 = print ''Sample documents:''
        (snd (collection_peek env (Collection name) 3
           (print (''Number of documents: '' @ str_int (count_ret env (ncalls w OpCount)))
              (print (''Collection: '' @ name)
                 (snd (collection_count env (Collection name)
                        (snd (remote_get_collection env cl name w))))))))"
    obtain r5 w5 where s: "sample_loop env (sample_rows (peek_ret env (ncalls w OpPeek))) 1 w4 = (r5, w5)"
      by (cases "sample_loop env (sample_rows (peek_ret env (ncalls w OpPeek))) 1 w4") auto
    have r5: "r5 = Inl e"
      using sample_loop_blank [OF h(6), of env 1 w4] s h(7) by simp
    have t: "get_collection_info_try env cl name w = (Inl e, w5)"
      using h(1-5) s r5
      by (simp add: get_collection_info_try_def remote_get_collection_def collection_count_def
            collection_peek_def Let_def w4_def tick_def)
    show ?thesis by (simp add: get_collection_info_def t print_def)
  qed
  have g: "add_documents env c cname docs metas ids embs w = (Inl e, c1, w1)
           \<and> query_collection env c cname qt n wh whd w = (Inl e, c1, w1)"
    if "get_or_create_collection env c cname None w = (Inl e, c1, w1)"
    using that by (simp add: add_documents_def query_collection_def)
  have a: "fst (add_documents env c cname docs metas ids embs w) = Inl e
           \<and> last (logs (snd (snd (add_documents env c cname docs metas ids embs w))))
               = (ERROR, ''Failed to add documents: '' @ str_exn e)"
    if "get_or_create_collection env c cname None w = (Inr (Some coll), c1, w1)"
      and "fails env OpAdd (ncalls w1 OpAdd) = Some e"
    using that
    by (cases ids)
       (simp_all add: add_documents_def add_try_def collection_add_def uuid_ids_eq Let_def)
  have a2: "fst (add_documents env c cname docs metas ids embs w) = Inr ()"
    if "get_or_create_collection env c cname None w = (Inr (Some coll), c1, w1)"
      and "fails env OpAdd (ncalls w1 OpAdd) = None"
    using that
    by (cases ids)
       (simp_all add: add_documents_def add_try_def collection_add_def uuid_ids_eq Let_def)
  have nn: "fst (add_documents env c cname docs metas ids embs w) = Inl (none_has_no_attribute ''add'')
           \<and> last (logs (snd (snd (add_documents env c cname docs metas ids embs w))))
               = (ERROR, ''Failed to add documents: '' @ str_exn (none_has_no_attribute ''add''))
           \<and> fst (query_collection env c cname qt n wh whd w) = Inl (none_has_no_attribute ''query'')
           \<and> last (logs (snd (snd (query_collection env c cname qt n wh whd w))))
               = (ERROR, ''Failed to query collection: '' @ str_exn (none_has_no_attribute ''query''))"
    if "get_or_create_collection env c cname None w = (Inr None, c1, w1)"
    using that
    by (cases ids)
       (simp_all add: add_documents_def add_try_def query_collection_def query_try_def uuid_ids_eq
          Let_def logger_def)
  have q: "fst (query_collection env c cname qt n wh whd w) = Inl e
           \<and> last (logs (snd (snd (query_collection env c cname qt n wh whd w))))
               = (ERROR, ''Failed to query collection: '' @ str_exn e)"
    if "get_or_create_collection env c cname None w = (Inr (Some coll), c1, w1)"
      and "fails env OpQuery (ncalls w1 OpQuery) = Some e"
    using that
    by (simp add: query_collection_def query_try_def collection_query_eq Let_def)
  have q2: "fst (query_collection env c cname qt n wh whd w) = Inr (query_ret env (ncalls w1 OpQuery))"
    if "get_or_create_collection env c cname None w = (Inr (Some coll), c1, w1)"
      and "fails env OpQuery (ncalls w1 OpQuery) = None"
    using that
    by (simp add: query_collection_def query_try_def collection_query_eq Let_def)
  show ?thesis
    using get_collection_info_never_raises [of env cl name w] i b g a a2 nn q q2 by blast
qed

theorem remote_failure_handling_witness:
  "fails (service_failing OpCount) OpGetCollection (ncalls seeded_world OpGetCollection) = None
   \<and> ''sample_collection'' \<in> set (collections seeded_world)
   \<and> fails (service_failing OpCount) OpCount (ncalls seeded_world OpCount) = Some (Exc ''Exception'' ''unavailable'')
   \<and> fst (get_collection_info (service_failing OpCount) handle0 ''sample_collection'' seeded_world) = Inr []
   \<and> last (out (snd (get_collection_info (service_failing OpCount) handle0 ''sample_collection'' seeded_world)))
       = ''Error getting collection info: unavailable''
   \<and> fst (add_documents (service_failing OpAdd) (connected_client 5 2) ''docs'' [''a''] None
             (Some [''id1'']) None empty_world) = Inl (Exc ''Exception'' ''unavailable'')
   \<and> last (logs (snd (snd (add_documents (service_failing OpAdd) (connected_client 5 2) ''docs'' [''a''] None
                              (Some [''id1'']) None empty_world))))
       = (ERROR, ''Failed to add documents: unavailable'')
   \<and> fst (query_collection (service_failing OpQuery) (connected_client 5 2) ''docs'' (QStr ''space'') 3
             None None empty_world) = Inl (Exc ''Exception'' ''unavailable'')
   \<and> last (logs (snd (snd (query_collection (service_failing OpQuery) (connected_client 5 2) ''docs''
                              (QStr ''space'') 3 None None empty_world))))
       = (ERROR, ''Failed to query collection: unavailable'')
   \<and> fst (get_or_create_collection service_rejecting (connected_client 1 2) ''docs'' None empty_world)
       = Inl (Exc ''Exception'' ''unavailable'')
   \<and> fst (add_documents service_rejecting (connected_client 1 2) ''docs'' [''a''] None (Some [''id1'']) None
            empty_world) = Inl (Exc ''Exception'' ''unavailable'')
   \<and> snd (add_documents service_rejecting (connected_client 1 2) ''docs'' [''a''] None (Some [''id1'']) None
            empty_world)
       = snd (get_or_create_collection service_rejecting (connected_client 1 2) ''docs'' None empty_world)"
proof -
  define e where "e = Exc ''Exception'' ''unavailable''"
  define wa where "wa = snd (snd (get_or_create_collection (service_failing OpAdd) (connected_client 5 2)
                                    ''docs'' None empty_world))"
  define wq where "wq = snd (snd (get_or_create_collection (service_failing OpQuery) (connected_client 5 2)
                                    ''docs'' None empty_world))"
  define wr where "wr = snd (snd (get_or_create_collection service_rejecting (connected_client 1 2)
                                    ''docs'' None empty_world))"
  have ga: "get_or_create_collection (service_failing OpAdd) (connected_client 5 2) ''docs'' None empty_world
     = (Inr (Some (Collection ''docs'')), connected_client 5 2, wa)"
    unfolding wa_def
    by (simp add: get_or_create_collection_def goc_loop.simps goc_try_def remote_get_or_create_def
          connected_client_def new_client_def service_failing_def service_up_def Let_def)
  have gq: "get_or_create_collection (service_failing OpQuery) (connected_client 5 2) ''docs'' None empty_world
     = (Inr (Some (Collection ''docs'')), connected_client 5 2, wq)"
    unfolding wq_def
    by (simp add: get_or_create_collection_def goc_loop.simps goc_try_def remote_get_or_create_def
          connected_client_def new_client_def service_failing_def service_up_def Let_def)
  have gr: "get_or_create_collection service_rejecting (connected_client 1 2) ''docs'' None empty_world
     = (Inl e, connected_client 1 2, wr)"
    unfolding wr_def e_def
    by (simp add: get_or_create_collection_def goc_loop.simps goc_try_def remote_get_or_create_def
          connected_client_def new_client_def service_rejecting_def service_up_def Let_def)
  have fa: "fails (service_failing OpAdd) OpAdd (ncalls wa OpAdd) = Some e"
    and fq: "fails (service_failing OpQuery) OpQuery (ncalls wq OpQuery) = Some e"
    and fc: "fails (service_failing OpCount) OpCount (ncalls seeded_world OpCount) = Some e"
    and fg: "fails (service_failing OpCount) OpGetCollection (ncalls seeded_world OpGetCollection) = None"
    by (simp_all add: service_failing_def service_up_def e_def)
  have b: "''sample_collection'' \<in> set (collections seeded_world)"
    by (simp add: seeded_world_def empty_world_def)
  show ?thesis
    using remote_failure_handling [where env = "service_failing OpCount" and cl = handle0
            and name = "''sample_collection''" and w = seeded_world and e = e]
      remote_failure_handling [where env = "service_failing OpAdd" and c = "connected_client 5 2"
            and cname = "''docs''" and w = empty_world and e = e and coll = "Collection ''docs''"
            and ?c1.0 = "connected_client 5 2" and ?w1.0 = wa and docs = "[''a'']" and metas = None
            and ids = "Some [''id1'']" and embs = None]
      remote_failure_handling [where env = "service_failing OpQuery" and c = "connected_client 5 2"
            and cname = "''docs''" and w = empty_world and e = e and coll = "Collection ''docs''"
            and ?c1.0 = "connected_client 5 2" and ?w1.0 = wq and qt = "QStr ''space''" and n = 3
            and wh = None and whd = None]
      remote_failure_handling [where env = service_rejecting and c = "connected_client 1 2"
            and cname = "''docs''" and w = empty_world and e = e
            and ?c1.0 = "connected_client 1 2" and ?w1.0 = wr and docs = "[''a'']" and metas = None
            and ids = "Some [''id1'']" and embs = None]
      ga gq gr fa fq fc fg b
    by (simp add: e_def str_exn_def)
qed

text \<open>
  The claim C7 fails for the get-or-create call of \<^verbatim>\<open>add_documents\<close> and
  \<^verbatim>\<open>query_collection\<close>: on a service whose first get-or-create fails and whose later calls
  succeed, the failure is logged at WARNING and retried, and both operations return
  normally; nothing is raised to the caller.
\<close>

theorem remote_failure_not_raised:
  "fails service_flaky OpGetOrCreate 0 = Some (Exc ''Exception'' ''unavailable'')
   \<and> fst (add_documents service_flaky (connected_client 5 2) ''docs'' [''a''] None (Some [''id1'']) None
            empty_world) = Inr ()
   \<and> emitted empty_world
        (snd (snd (add_documents service_flaky (connected_client 5 2) ''docs'' [''a''] None (Some [''id1''])
                     None empty_world)))
       = [CallGetOrCreate ''docs'' None, Sleep 2, CallGetOrCreate ''docs'' None,
          CallAdd (Collection ''docs'') [''a''] None [''id1''] None]
   \<and> map fst (logs (snd (snd (add_documents service_flaky (connected_client 5 2) ''docs'' [''a''] None
                                  (Some [''id1'']) None empty_world))))
       = [WARNING, INFO, INFO]
   \<and> hd (logs (snd (snd (add_documents service_flaky (connected_client 5 2) ''docs'' [''a''] None
                            (Some [''id1'']) None empty_world))))
       = (WARNING, ''Collection access attempt 1 failed: unavailable'')
   \<and> fst (query_collection service_flaky (connected_client 5 2) ''docs'' (QStr ''space'') 3 None None
            empty_world) = Inr \<lparr>documents = [[]], metadatas = [[]], distances = [[]]\<rparr>
   \<and> emitted empty_world
        (snd (snd (query_collection service_flaky (connected_client 5 2) ''docs'' (QStr ''space'') 3 None None
                     empty_world)))
       = [CallGetOrCreate ''docs'' None, Sleep 2, CallGetOrCreate ''docs'' None,
          CallQuery (Collection ''docs'') (QList [''space'']) 3 None None]"
  by (simp add: add_documents_def add_try_def collection_add_def query_collection_def query_try_def
        collection_query_def get_or_create_collection_def goc_loop.simps goc_try_def
        remote_get_or_create_def time_sleep_def sleep_max_def tick_def logger_def emitted_def Let_def
        str_exn_def str_int_def str_nat.simps connected_client_def new_client_def service_flaky_def
        service_up_def empty_world_def)

section \<open>The command-line script\<close>

lemma connect_to_chroma_fails:
  assumes "attempt_exn env (ncalls w OpHttpClient) = Some e"
  shows "fst (connect_to_chroma env h p w) = Inl (SystemExit 1)"
  using assms
  by (auto simp: connect_to_chroma_def connect_to_chroma_try_def HttpClient_def heartbeat_def
        attempt_exn_def Let_def split: option.splits)

lemma connect_to_chroma_ok:
  assumes "attempt_exn env (ncalls w OpHttpClient) = None"
  shows "\<exists>cl w1. connect_to_chroma env h p w = (Inr cl, w1)
           \<and> trace w1 = trace w @ [CallHttpClient h p, CallHeartbeat]
           \<and> collections w1 = collections w
           \<and> ncalls w1 OpListCollections = ncalls w OpListCollections
           \<and> ncalls w1 OpGetCollection = ncalls w OpGetCollection
           \<and> ncalls w1 OpCount = ncalls w OpCount
           \<and> ncalls w1 OpPeek = ncalls w OpPeek
           \<and> ncalls w1 OpQuery = ncalls w OpQuery"
  using assms
  by (auto simp: connect_to_chroma_def connect_to_chroma_try_def HttpClient_def heartbeat_def
        attempt_exn_def Let_def split: option.splits)

lemma list_collections_loop_names:
  "fst (list_collections_loop colls i acc w) = acc @ map coll_name colls"
  by (induction colls i acc w rule: list_collections_loop.induct) simp_all

lemma list_collections_loop_frame [simp]:
  "trace (snd (list_collections_loop colls i acc w)) = trace w"
  "ncalls (snd (list_collections_loop colls i acc w)) = ncalls w"
  "collections (snd (list_collections_loop colls i acc w)) = collections w"
  by (induction colls i acc w rule: list_collections_loop.induct) simp_all

lemma coll_names_map [simp]: "map (coll_name \<circ> Collection) names = names"
  by (induction names) simp_all

lemma list_collections_ok:
  assumes "fails env OpListCollections (ncalls w OpListCollections) = None"
  shows "\<exists>w1. list_collections env cl w = (Inr (collections w), w1)
           \<and> trace w1 = trace w @ [CallListCollections]
           \<and> collections w1 = collections w
           \<and> ncalls w1 OpGetCollection = ncalls w OpGetCollection
           \<and> ncalls w1 OpCount = ncalls w OpCount
           \<and> ncalls w1 OpPeek = ncalls w OpPeek
           \<and> ncalls w1 OpQuery = ncalls w OpQuery"
proof (cases "collections w = []")
  case True
  then show ?thesis
    using assms by (simp add: list_collections_def remote_list_collections_def Let_def)
next
  case False
  define w0 where "w0 = tick OpListCollections CallListCollections w"
  define w0' where "w0' = print (''Found '' @ str_int (int (length (map Collection (collections w0))))
                                   @ '' collections:'') w0"
  obtain names w2 where l: "list_collections_loop (map Collection (collections w0)) 1 [] w0' = (names, w2)"
    by (cases "list_collections_loop (map Collection (collections w0)) 1 [] w0'") auto
  have n: "names = collections w"
    using list_collections_loop_names [of "map Collection (collections w0)" 1 "[]" w0'] l
    by (simp add: w0_def)
  have f: "trace w2 = trace w0'" "ncalls w2 = ncalls w0'" "collections w2 = collections w0'"
    using list_collections_loop_frame [of "map Collection (collections w0)" 1 "[]" w0'] l
    by simp_all
  show ?thesis
    apply (rule exI [of _ w2])
    using assms False l n f
    by (simp add: list_collections_def remote_list_collections_def Let_def w0_def [symmetric]
          w0'_def [symmetric])
       (simp add: w0_def w0'_def)
qed

lemma list_collections_fails:
  assumes "fails env OpListCollections (ncalls w OpListCollections) = Some e"
  shows "fst (list_collections env cl w) = Inl (Uncaught e)"
  using assms by (simp add: list_collections_def remote_list_collections_def Let_def)

lemma sample_loop_frameD:
  assumes "sample_loop env rows i w = (r, w')"
  shows "trace w' = trace w" "ncalls w' = ncalls w" "collections w' = collections w"
  using sample_loop_frame [of env rows i w] assms by simp_all

lemma get_collection_info_events:
  "\<exists>evs. trace (snd (get_collection_info env cl name w)) = trace w @ CallGetCollection name # evs
         \<and> set evs \<subseteq> {CallCount (Collection name), CallPeek (Collection name) 3}"
proof -
  obtain r0 w1 where g: "remote_get_collection env cl name w = (r0, w1)"
    by (cases "remote_get_collection env cl name w") auto
  have t1: "trace w1 = trace w @ [CallGetCollection name]"
    using g by (auto simp: remote_get_collection_def Let_def split: option.splits if_splits)
  show ?thesis
  proof (cases r0)
    case (Inl e)
    then show ?thesis
      using g t1 by (simp add: get_collection_info_def get_collection_info_try_def)
  next
    case (Inr coll)
    have cn: "coll = Collection name"
      using g Inr by (auto simp: remote_get_collection_def Let_def split: option.splits if_splits)
    obtain r2 w2 where c: "collection_count env coll w1 = (r2, w2)"
      by (cases "collection_count env coll w1") auto
    have t2: "trace w2 = trace w1 @ [CallCount coll]"
      using c by (auto simp: collection_count_def Let_def split: option.splits)
    show ?thesis
    proof (cases r2)
      case (Inl e)
      then show ?thesis
        using g \<open>r0 = Inr coll\<close> c t1 t2 cn
        by (simp add: get_collection_info_def get_collection_info_try_def)
    next
      case cnt: (Inr count)
      show ?thesis
      proof (cases "count > 0")
        case False
        then show ?thesis
          using g \<open>r0 = Inr coll\<close> c cnt t1 t2 cn
          by (simp add: get_collection_info_def get_collection_info_try_def Let_def)
      next
        case True
        obtain r4 w4 where p: "collection_peek env coll 3
                 (print (''Number of documents: '' @ str_int count)
                    (print (''Collection: '' @ name) w2)) = (r4, w4)"
          by (cases "collection_peek env coll 3
                 (print (''Number of documents: '' @ str_int count)
                    (print (''Collection: '' @ name) w2))") auto
        have t4: "trace w4 = trace w2 @ [CallPeek coll 3]"
          using p by (auto simp: collection_peek_def Let_def split: option.splits)
        show ?thesis
        proof (cases r4)
          case (Inl e)
          then show ?thesis
            using g \<open>r0 = Inr coll\<close> c cnt True p t1 t2 t4 cn
            by (simp add: get_collection_info_def get_collection_info_try_def Let_def)
        next
          case (Inr sample)
          obtain r5 w5 where s: "sample_loop env (sample_rows sample) 1 (print ''Sample documents:'' w4)
                                   = (r5, w5)"
            by (cases "sample_loop env (sample_rows sample) 1 (print ''Sample documents:'' w4)") auto
          have t5: "trace w5 = trace w4" using sample_loop_frameD(1) [OF s] by simp
          show ?thesis
            using g \<open>r0 = Inr coll\<close> c cnt True p Inr s t1 t2 t4 t5 cn
            by (cases r5)
               (simp_all add: get_collection_info_def get_collection_info_try_def Let_def)
        qed
      qed
    qed
  qed
qed

lemma run_basic_query_trace_grows:
  "trace (snd (run_basic_query env cl name s n w))
     = trace w @ CallGetCollection name
         # (if fails env OpGetCollection (ncalls w OpGetCollection) = None \<and> name \<in> set (collections w)
            then [CallQuery (Collection name) (QStr s) n None None] else [])"
  by (auto simp: run_basic_query_def run_basic_query_try_def remote_get_collection_def
        collection_query_eq Let_def split: option.splits sum.splits)

lemma run_basic_query_never_aborts:
  "\<exists>r. fst (run_basic_query env cl name s n w) = Inr r"
  by (simp add: run_basic_query_def split: prod.splits sum.splits)

lemma get_collection_info_ok:
  assumes "name \<in> set (collections w)" and ok: "info_lookup_succeeds env w"
  shows "\<exists>w1. get_collection_info env cl name w
             = (Inr [(''name'', PStr name), (''count'', PInt (count_ret env (ncalls w OpCount)))], w1)
           \<and> trace w1 = trace w @ [CallGetCollection name, CallCount (Collection name)]
                 @ (if count_ret env (ncalls w OpCount) > 0 then [CallPeek (Collection name) 3] else [])
           \<and> collections w1 = collections w
           \<and> ncalls w1 OpGetCollection = Suc (ncalls w OpGetCollection)
           \<and> ncalls w1 OpQuery = ncalls w OpQuery"
proof (cases "count_ret env (ncalls w OpCount) > 0")
  case False
  then show ?thesis
    using assms
    by (simp add: info_lookup_succeeds_def get_collection_info_def get_collection_info_try_def
          remote_get_collection_def collection_count_def Let_def)
next
  case True
  have f: "fails env OpGetCollection (ncalls w OpGetCollection) = None"
      "fails env OpCount (ncalls w OpCount) = None" "fails env OpPeek (ncalls w OpPeek) = None"
    and sp: "sample_printable (sample_rows (peek_ret env (ncalls w OpPeek)))"
    using ok True by (simp_all add: info_lookup_succeeds_def)
  define w4 where "w4 = print ''Sample documents:''
      (tick OpPeek (CallPeek (Collection name) 3)
         (print (''Number of documents: '' @ str_int (count_ret env (ncalls w OpCount)))
            (print (''Collection: '' @ name)
               (tick OpCount (CallCount (Collection name))
                  (tick OpGetCollection (CallGetCollection name) w)))))"
  obtain r5 w5 where s: "sample_loop env (sample_rows (peek_ret env (ncalls w OpPeek))) 1 w4 = (r5, w5)"
    by (cases "sample_loop env (sample_rows (peek_ret env (ncalls w OpPeek))) 1 w4") auto
  from sample_loop_result [of env "sample_rows (peek_ret env (ncalls w OpPeek))" 1 w4] sp s
  obtain u where r5: "r5 = Inr u" by auto
  note fr = sample_loop_frameD [OF s]
  have t: "get_collection_info_try env cl name w
             = (Inr [(''name'', PStr name), (''count'', PInt (count_ret env (ncalls w OpCount)))], w5)"
    using assms(1) f True s r5
    by (simp add: get_collection_info_try_def remote_get_collection_def collection_count_def
          collection_peek_def Let_def w4_def)
  show ?thesis
    apply (rule exI [of _ w5])
    using t fr True by (simp add: get_collection_info_def w4_def)
qed

lemma get_collection_info_not_ok:
  assumes "\<not> info_lookup_succeeds env w"
  shows "fst (get_collection_info env cl name w) = Inr []"
proof -
  have a: "fst (get_collection_info env cl name w) = Inr []"
    if "fails env OpGetCollection (ncalls w OpGetCollection) \<noteq> None
        \<or> name \<notin> set (collections w)
        \<or> fails env OpCount (ncalls w OpCount) \<noteq> None
        \<or> fails env OpGetCollection (ncalls w OpGetCollection) = None \<and> name \<in> set (collections w)
            \<and> fails env OpCount (ncalls w OpCount) = None \<and> count_ret env (ncalls w OpCount) > 0
            \<and> fails env OpPeek (ncalls w OpPeek) \<noteq> None"
    using that
    by (auto simp: get_collection_info_def get_collection_info_try_def remote_get_collection_def
          collection_count_def collection_peek_def Let_def split: option.splits)
  have b: "fst (get_collection_info env cl name w) = Inr []"
    if h: "fails env OpGetCollection (ncalls w OpGetCollection) = None" "name \<in> set (collections w)"
         "fails env OpCount (ncalls w OpCount) = None" "count_ret env (ncalls w OpCount) > 0"
         "fails env OpPeek (ncalls w OpPeek) = None"
         "\<not> sample_printable (sample_rows (peek_ret env (ncalls w OpPeek)))"
  proof -
    define w4 where "w4 = print ''Sample documents:''
      (tick OpPeek (CallPeek (Collection name) 3)
         (print (''Number of documents: '' @ str_int (count_ret env (ncalls w OpCount)))
            (print (''Collection: '' @ name)
               (tick OpCount (CallCount (Collection name))
                  (tick OpGetCollection (CallGetCollection name) w)))))"
    obtain r5 w5 where s: "sample_loop env (sample_rows (peek_ret env (ncalls w OpPeek))) 1 w4 = (r5, w5)"
      by (cases "sample_loop env (sample_rows (peek_ret env (ncalls w OpPeek))) 1 w4") auto
    from sample_loop_result [of env "sample_rows (peek_ret env (ncalls w OpPeek))" 1 w4] h(6) s
    obtain e where r5: "r5 = Inl e" by (cases r5) auto
    have t: "get_collection_info_try env cl name w = (Inl e, w5)"
      using h(1-5) s r5
      by (simp add: get_collection_info_try_def remote_get_collection_def collection_count_def
            collection_peek_def Let_def w4_def)
    show ?thesis by (simp add: get_collection_info_def t)
  qed
  show ?thesis
  proof (cases "fails env OpGetCollection (ncalls w OpGetCollection) = None
                \<and> name \<in> set (collections w) \<and> fails env OpCount (ncalls w OpCount) = None")
    case False
    then show ?thesis using a by auto
  next
    case True
    with assms have pos: "count_ret env (ncalls w OpCount) > 0"
      and d: "fails env OpPeek (ncalls w OpPeek) \<noteq> None
              \<or> \<not> sample_printable (sample_rows (peek_ret env (ncalls w OpPeek)))"
      by (auto simp: info_lookup_succeeds_def split: if_splits)
    show ?thesis
    proof (cases "fails env OpPeek (ncalls w OpPeek) = None")
      case False
      then show ?thesis using a True pos by auto
    next
      case pk: True
      with d have "\<not> sample_printable (sample_rows (peek_ret env (ncalls w OpPeek)))" by simp
      then show ?thesis using b True pos pk by simp
    qed
  qed
qed

lemma main_connection_fails:
  assumes "attempt_exn env (ncalls w OpHttpClient) = Some e"
  shows "fst (local_client_main env a w) = Inl (SystemExit 1)"
  using connect_to_chroma_fails [OF assms, of "arg_host a" "arg_port a"]
  by (cases "connect_to_chroma env (arg_host a) (arg_port a) w") (simp add: local_client_main_def)

lemma main_no_collections:
  assumes "attempt_exn env (ncalls w OpHttpClient) = None"
    and "fails env OpListCollections (ncalls w OpListCollections) = None"
    and "collections w = []"
  shows "fst (local_client_main env a w) = Inl (SystemExit 1)"
proof -
  from connect_to_chroma_ok [OF assms(1), of "arg_host a" "arg_port a"] obtain cl w1 where
    c: "connect_to_chroma env (arg_host a) (arg_port a) w = (Inr cl, w1)"
    and f: "collections w1 = collections w"
           "ncalls w1 OpListCollections = ncalls w OpListCollections"
    by blast
  have l0: "fails env OpListCollections (ncalls w1 OpListCollections) = None"
    using assms(2) f by simp
  from list_collections_ok [OF l0, of cl] obtain w2 where
    l: "list_collections env cl w1 = (Inr (collections w1), w2)"
    by blast
  show ?thesis
    using c l f assms(3) by (simp add: local_client_main_def)
qed

lemma main_unfold:
  assumes "connect_to_chroma env (arg_host a) (arg_port a) w = (Inr cl, w1)"
    and "list_collections env cl w1 = (Inr (first # others), w2)"
    and "sel = (if arg_collection a \<in> set (first # others) then arg_collection a else first)"
  shows "local_client_main env a w =
     (case get_collection_info env cl sel w2 of
        (Inl ab, w3) \<Rightarrow> (Inl ab, w3)
      | (Inr info, w3) \<Rightarrow>
          (if info = [] then
             (Inl (SystemExit 1), print (''Could not access collection '' @ sq sel) w3)
           else
             (case run_basic_query env cl sel (arg_query a) 3 w3 of
                (Inl ab, w4) \<Rightarrow> (Inl ab, w4)
              | (Inr r, w4) \<Rightarrow> (Inr (), w4))))"
  unfolding local_client_main_def assms(3)
  by (simp only: assms(1) assms(2) prod.case sum.case list.case Let_def)

lemma main_list_fails:
  assumes "attempt_exn env (ncalls w OpHttpClient) = None"
    and "fails env OpListCollections (ncalls w OpListCollections) = Some e"
  shows "fst (local_client_main env a w) = Inl (Uncaught e)"
proof -
  from connect_to_chroma_ok [OF assms(1), of "arg_host a" "arg_port a"] obtain cl w1 where
    c: "connect_to_chroma env (arg_host a) (arg_port a) w = (Inr cl, w1)"
    and f: "ncalls w1 OpListCollections = ncalls w OpListCollections"
    by blast
  have l0: "fails env OpListCollections (ncalls w1 OpListCollections) = Some e"
    using assms(2) f by simp
  obtain r2 w2 where l: "list_collections env cl w1 = (r2, w2)"
    by (cases "list_collections env cl w1") auto
  have "r2 = Inl (Uncaught e)" using list_collections_fails [OF l0, of cl] l by simp
  then show ?thesis
    using c l by (simp add: local_client_main_def)
qed

lemma main_with_collections:
  assumes "attempt_exn env (ncalls w OpHttpClient) = None"
    and "fails env OpListCollections (ncalls w OpListCollections) = None"
    and "collections w = first # others"
    and "sel = (if arg_collection a \<in> set (first # others) then arg_collection a else first)"
  shows "(\<exists>evs. emitted w (snd (local_client_main env a w))
            = [CallHttpClient (arg_host a) (arg_port a), CallHeartbeat, CallListCollections,
               CallGetCollection sel] @ evs)
       \<and> (info_lookup_succeeds env w \<longrightarrow>
             fst (local_client_main env a w) = Inr ()
             \<and> emitted w (snd (local_client_main env a w))
                 = [CallHttpClient (arg_host a) (arg_port a), CallHeartbeat, CallListCollections,
                    CallGetCollection sel, CallCount (Collection sel)]
                   @ (if count_ret env (ncalls w OpCount) > 0 then [CallPeek (Collection sel) 3] else [])
                   @ CallGetCollection sel
                     # (if fails env OpGetCollection (Suc (ncalls w OpGetCollection)) = None
                        then [CallQuery (Collection sel) (QStr (arg_query a)) 3 None None] else []))
       \<and> (\<not> info_lookup_succeeds env w \<longrightarrow>
             fst (local_client_main env a w) = Inl (SystemExit 1)
             \<and> (\<exists>evs. emitted w (snd (local_client_main env a w))
                   = [CallHttpClient (arg_host a) (arg_port a), CallHeartbeat, CallListCollections,
                      CallGetCollection sel] @ evs
                  \<and> set evs \<subseteq> {CallCount (Collection sel), CallPeek (Collection sel) 3}))"
proof -
  from connect_to_chroma_ok [OF assms(1), of "arg_host a" "arg_port a"] obtain cl w1 where
    c: "connect_to_chroma env (arg_host a) (arg_port a) w = (Inr cl, w1)"
    and f: "trace w1 = trace w @ [CallHttpClient (arg_host a) (arg_port a), CallHeartbeat]"
           "collections w1 = collections w"
           "ncalls w1 OpListCollections = ncalls w OpListCollections"
           "ncalls w1 OpGetCollection = ncalls w OpGetCollection"
           "ncalls w1 OpCount = ncalls w OpCount"
           "ncalls w1 OpPeek = ncalls w OpPeek"
    by blast
  have l0: "fails env OpListCollections (ncalls w1 OpListCollections) = None"
    using assms(2) f by simp
  from list_collections_ok [OF l0, of cl] obtain w2 where
    l: "list_collections env cl w1 = (Inr (collections w1), w2)"
    and g: "trace w2 = trace w1 @ [CallListCollections]" "collections w2 = collections w1"
           "ncalls w2 OpGetCollection = ncalls w1 OpGetCollection"
           "ncalls w2 OpCount = ncalls w1 OpCount"
           "ncalls w2 OpPeek = ncalls w1 OpPeek"
    by blast
  have l': "list_collections env cl w1 = (Inr (first # others), w2)"
    using l f assms(3) by simp
  have m: "sel \<in> set (collections w2)"
    using g f assms(3) by (simp add: assms(4))
  have same: "info_lookup_succeeds env w2 = info_lookup_succeeds env w"
    using f g by (simp add: info_lookup_succeeds_def)
  have t2: "trace w2 = trace w @ [CallHttpClient (arg_host a) (arg_port a), CallHeartbeat,
                                  CallListCollections]"
    using f g by simp
  obtain info w3 where i: "get_collection_info env cl sel w2 = (Inr info, w3)"
    using get_collection_info_never_raises [of env cl sel w2]
    by (cases "get_collection_info env cl sel w2") auto
  from get_collection_info_events [of env cl sel w2] i obtain evs where
    h: "trace w3 = trace w2 @ CallGetCollection sel # evs"
    and hs: "set evs \<subseteq> {CallCount (Collection sel), CallPeek (Collection sel) 3}"
    by auto
  have bad: "fst (local_client_main env a w) = Inl (SystemExit 1)
             \<and> (\<exists>evs. emitted w (snd (local_client_main env a w))
                   = [CallHttpClient (arg_host a) (arg_port a), CallHeartbeat, CallListCollections,
                      CallGetCollection sel] @ evs
                  \<and> set evs \<subseteq> {CallCount (Collection sel), CallPeek (Collection sel) 3})"
    if no: "\<not> info_lookup_succeeds env w"
  proof -
    have e: "info = []"
      using get_collection_info_not_ok [of env w2 cl sel] no same i by simp
    have r: "local_client_main env a w
               = (Inl (SystemExit 1), print (''Could not access collection '' @ sq sel) w3)"
      unfolding main_unfold [OF c l' assms(4)] using i e by simp
    show ?thesis
      unfolding r using t2 h hs by (auto simp: emitted_def)
  qed
  have good: "fst (local_client_main env a w) = Inr ()
             \<and> emitted w (snd (local_client_main env a w))
                 = [CallHttpClient (arg_host a) (arg_port a), CallHeartbeat, CallListCollections,
                    CallGetCollection sel, CallCount (Collection sel)]
                   @ (if count_ret env (ncalls w OpCount) > 0 then [CallPeek (Collection sel) 3] else [])
                   @ CallGetCollection sel
                     # (if fails env OpGetCollection (Suc (ncalls w OpGetCollection)) = None
                        then [CallQuery (Collection sel) (QStr (arg_query a)) 3 None None] else [])"
    if yes: "info_lookup_succeeds env w"
  proof -
    have ok2: "info_lookup_succeeds env w2" using yes same by simp
    from get_collection_info_ok [OF m ok2, of cl] i obtain
      i2: "info = [(''name'', PStr sel), (''count'', PInt (count_ret env (ncalls w2 OpCount)))]"
      and h2: "trace w3 = trace w2 @ [CallGetCollection sel, CallCount (Collection sel)]
                 @ (if count_ret env (ncalls w2 OpCount) > 0 then [CallPeek (Collection sel) 3] else [])"
           "collections w3 = collections w2"
           "ncalls w3 OpGetCollection = Suc (ncalls w2 OpGetCollection)"
      by auto
    obtain r w4 where q: "run_basic_query env cl sel (arg_query a) 3 w3 = (Inr r, w4)"
      using run_basic_query_never_aborts [of env cl sel "arg_query a" 3 w3]
      by (cases "run_basic_query env cl sel (arg_query a) 3 w3") auto
    have k: "trace w4 = trace w3 @ CallGetCollection sel
               # (if fails env OpGetCollection (Suc (ncalls w OpGetCollection)) = None
                  then [CallQuery (Collection sel) (QStr (arg_query a)) 3 None None] else [])"
      using run_basic_query_trace_grows [of env cl sel "arg_query a" 3 w3] q m h2 f g by simp
    have r: "local_client_main env a w = (Inr (), w4)"
      unfolding main_unfold [OF c l' assms(4)] using i i2 q by simp
    show ?thesis
      unfolding r using t2 h2 k f g by (simp add: emitted_def)
  qed
  have pre: "\<exists>evs. emitted w (snd (local_client_main env a w))
            = [CallHttpClient (arg_host a) (arg_port a), CallHeartbeat, CallListCollections,
               CallGetCollection sel] @ evs"
  proof (cases "info_lookup_succeeds env w")
    case True
    from good [OF True] show ?thesis by simp
  next
    case False
    from bad [OF False] show ?thesis by blast
  qed
  show ?thesis using pre good bad by blast
qed

text \<open>
  C6, amended.  The script exits with status 1 whenever the initial connection fails, and
  whenever the service lists no collection at all.  A \<^verbatim>\<open>--collection\<close> target that is
  missing does not by itself end the script: when the service holds some collection, the
  script goes on with the first listed one, and its exit status is 0 exactly when the info
  lookup of that collection succeeds, and 1 otherwise.  Altogether the status is 0 exactly
  when the connection and the listing succeed, the service holds a collection and the info
  lookup succeeds.
\<close>

theorem main_exit_status:
  "(attempt_exn env (ncalls w OpHttpClient) \<noteq> None \<longrightarrow>
      fst (local_client_main env a w) = Inl (SystemExit 1)
      \<and> exit_status (fst (local_client_main env a w)) = 1)
   \<and> (attempt_exn env (ncalls w OpHttpClient) = None
       \<and> fails env OpListCollections (ncalls w OpListCollections) = None
       \<and> collections w = [] \<longrightarrow>
      fst (local_client_main env a w) = Inl (SystemExit 1)
      \<and> exit_status (fst (local_client_main env a w)) = 1)
   \<and> (attempt_exn env (ncalls w OpHttpClient) = None
       \<and> fails env OpListCollections (ncalls w OpListCollections) = None
       \<and> collections w = first # others
       \<and> arg_collection a \<notin> set (collections w) \<longrightarrow>
      (\<exists>evs. emitted w (snd (local_client_main env a w))
          = [CallHttpClient (arg_host a) (arg_port a), CallHeartbeat, CallListCollections,
             CallGetCollection first] @ evs)
      \<and> (exit_status (fst (local_client_main env a w)) = 0) = info_lookup_succeeds env w
      \<and> (exit_status (fst (local_client_main env a w)) = 1) = (\<not> info_lookup_succeeds env w))
   \<and> (exit_status (fst (local_client_main env a w)) = 0)
       = (attempt_exn env (ncalls w OpHttpClient) = None
          \<and> fails env OpListCollections (ncalls w OpListCollections) = None
          \<and> collections w \<noteq> []
          \<and> info_lookup_succeeds env w)"
proof -
  have one: "fst (local_client_main env a w) = Inl (SystemExit 1)"
    if "attempt_exn env (ncalls w OpHttpClient) \<noteq> None"
    using that main_connection_fails [of env w _ a] by auto
  have two: "fst (local_client_main env a w) = Inl (SystemExit 1)"
    if "attempt_exn env (ncalls w OpHttpClient) = None"
      and "fails env OpListCollections (ncalls w OpListCollections) = None"
      and "collections w = []"
    using that by (rule main_no_collections)
  have lf: "exit_status (fst (local_client_main env a w)) = 1"
    if "attempt_exn env (ncalls w OpHttpClient) = None"
      and "fails env OpListCollections (ncalls w OpListCollections) \<noteq> None"
  proof -
    from that(2) obtain e where "fails env OpListCollections (ncalls w OpListCollections) = Some e"
      by auto
    from main_list_fails [OF that(1) this, of a] show ?thesis by (simp add: exit_status_def)
  qed
  have st: "(exit_status (fst (local_client_main env a w)) = 0) = info_lookup_succeeds env w
            \<and> (exit_status (fst (local_client_main env a w)) = 1) = (\<not> info_lookup_succeeds env w)"
    if c: "attempt_exn env (ncalls w OpHttpClient) = None"
      and l: "fails env OpListCollections (ncalls w OpListCollections) = None"
      and ne: "collections w = x # xs"
    for x xs
    using main_with_collections [OF c l ne refl, of a]
    by (cases "info_lookup_succeeds env w") (simp_all add: exit_status_def)
  have three: "(\<exists>evs. emitted w (snd (local_client_main env a w))
          = [CallHttpClient (arg_host a) (arg_port a), CallHeartbeat, CallListCollections,
             CallGetCollection first] @ evs)
      \<and> (exit_status (fst (local_client_main env a w)) = 0) = info_lookup_succeeds env w
      \<and> (exit_status (fst (local_client_main env a w)) = 1) = (\<not> info_lookup_succeeds env w)"
    if c: "attempt_exn env (ncalls w OpHttpClient) = None"
      and l: "fails env OpListCollections (ncalls w OpListCollections) = None"
      and ne: "collections w = first # others"
      and mi: "arg_collection a \<notin> set (collections w)"
  proof -
    have sel: "first = (if arg_collection a \<in> set (first # others) then arg_collection a else first)"
      using ne mi by simp
    from main_with_collections [OF c l ne sel] st [OF c l ne] show ?thesis by blast
  qed
  have four: "(exit_status (fst (local_client_main env a w)) = 0)
       = (attempt_exn env (ncalls w OpHttpClient) = None
          \<and> fails env OpListCollections (ncalls w OpListCollections) = None
          \<and> collections w \<noteq> []
          \<and> info_lookup_succeeds env w)"
  proof (cases "attempt_exn env (ncalls w OpHttpClient) = None")
    case False
    with one show ?thesis by (simp add: exit_status_def)
  next
    case c: True
    show ?thesis
    proof (cases "fails env OpListCollections (ncalls w OpListCollections) = None")
      case False
      with lf [OF c] show ?thesis by simp
    next
      case l: True
      show ?thesis
      proof (cases "collections w")
        case Nil
        with two [OF c l] c l show ?thesis by (simp add: exit_status_def)
      next
        case (Cons x xs)
        with st [OF c l Cons] c l show ?thesis by simp
      qed
    qed
  qed
  have one': "attempt_exn env (ncalls w OpHttpClient) \<noteq> None \<longrightarrow>
      fst (local_client_main env a w) = Inl (SystemExit 1)
      \<and> exit_status (fst (local_client_main env a w)) = 1"
    using one by (simp add: exit_status_def)
  have two': "attempt_exn env (ncalls w OpHttpClient) = None
       \<and> fails env OpListCollections (ncalls w OpListCollections) = None
       \<and> collections w = [] \<longrightarrow>
      fst (local_client_main env a w) = Inl (SystemExit 1)
      \<and> exit_status (fst (local_client_main env a w)) = 1"
    using two by (simp add: exit_status_def)
  have three': "attempt_exn env (ncalls w OpHttpClient) = None
       \<and> fails env OpListCollections (ncalls w OpListCollections) = None
       \<and> collections w = first # others
       \<and> arg_collection a \<notin> set (collections w) \<longrightarrow>
      (\<exists>evs. emitted w (snd (local_client_main env a w))
          = [CallHttpClient (arg_host a) (arg_port a), CallHeartbeat, CallListCollections,
             CallGetCollection first] @ evs)
      \<and> (exit_status (fst (local_client_main env a w)) = 0) = info_lookup_succeeds env w
      \<and> (exit_status (fst (local_client_main env a w)) = 1) = (\<not> info_lookup_succeeds env w)"
    using three by blast
  show ?thesis
    by (rule conjI [OF one' conjI [OF two' conjI [OF three' four]]])
qed

theorem main_exit_status_witness:
  "attempt_exn service_down (ncalls empty_world OpHttpClient) \<noteq> None
   \<and> fst (local_client_main service_down default_args empty_world) = Inl (SystemExit 1)
   \<and> exit_status (fst (local_client_main service_down default_args empty_world)) = 1
   \<and> attempt_exn service_up (ncalls empty_world OpHttpClient) = None
   \<and> fails service_up OpListCollections (ncalls empty_world OpListCollections) = None
   \<and> collections empty_world = []
   \<and> exit_status (fst (local_client_main service_up default_args empty_world)) = 1
   \<and> collections other_world = [''other'']
   \<and> arg_collection default_args \<notin> set (collections other_world)
   \<and> info_lookup_succeeds service_up other_world
   \<and> exit_status (fst (local_client_main service_up default_args other_world)) = 0
   \<and> \<not> info_lookup_succeeds (service_failing OpCount) other_world
   \<and> exit_status (fst (local_client_main (service_failing OpCount) default_args other_world)) = 1"
proof -
  have a: "attempt_exn service_down (ncalls empty_world OpHttpClient) \<noteq> None"
    and b: "attempt_exn service_up (ncalls empty_world OpHttpClient) = None"
    and c: "fails service_up OpListCollections (ncalls empty_world OpListCollections) = None"
    and b2: "attempt_exn service_up (ncalls other_world OpHttpClient) = None"
    and c2: "fails service_up OpListCollections (ncalls other_world OpListCollections) = None"
    and b3: "attempt_exn (service_failing OpCount) (ncalls other_world OpHttpClient) = None"
    and c3: "fails (service_failing OpCount) OpListCollections (ncalls other_world OpListCollections) = None"
    by (simp_all add: attempt_exn_def service_down_def service_failing_def service_up_def)
  have d: "collections empty_world = []" and e: "collections other_world = [''other'']"
    by (simp_all add: empty_world_def other_world_def)
  have m: "arg_collection default_args \<notin> set (collections other_world)"
    by (simp add: e default_args_def)
  have i: "info_lookup_succeeds service_up other_world"
    and n: "\<not> info_lookup_succeeds (service_failing OpCount) other_world"
    by (simp_all add: info_lookup_succeeds_def service_failing_def service_up_def)
  show ?thesis
    using main_exit_status [where env = service_down and w = empty_world and a = default_args]
      main_exit_status [where env = service_up and w = empty_world and a = default_args]
      main_exit_status [where env = service_up and w = other_world and a = default_args
        and first = "''other''" and others = "[]"]
      main_exit_status [where env = "service_failing OpCount" and w = other_world and a = default_args
        and first = "''other''" and others = "[]"]
      a b c b2 c2 b3 c3 d e m i n
    by blast
qed

text \<open>
  The claim C6 fails where the target of \<^verbatim>\<open>--collection\<close> is missing and another collection
  exists: the script returns normally.
\<close>

theorem main_missing_collection_exits_zero:
  "arg_collection default_args \<notin> set (collections other_world)
   \<and> fst (local_client_main service_up default_args other_world) = Inr ()
   \<and> exit_status (fst (local_client_main service_up default_args other_world)) = 0"
proof -
  have b: "attempt_exn service_up (ncalls other_world OpHttpClient) = None"
    and l: "fails service_up OpListCollections (ncalls other_world OpListCollections) = None"
    by (simp_all add: attempt_exn_def service_up_def)
  have c: "collections other_world = ''other'' # []" by (simp add: other_world_def empty_world_def)
  have i: "info_lookup_succeeds service_up other_world"
    by (simp add: info_lookup_succeeds_def service_up_def)
  show ?thesis
    using main_with_collections [OF b l c refl, of default_args] i
    by (simp add: exit_status_def default_args_def c)
qed

text \<open>
  C9.  When the connection and the listing succeed, the service holds at least one
  collection and the name given by \<^verbatim>\<open>--collection\<close> is not among them, \<^verbatim>\<open>main\<close> does not
  exit at the choice of the collection: its next call looks up the first listed
  collection.  When this info lookup succeeds, the script goes on to \<^verbatim>\<open>run_basic_query\<close> on
  that collection, which looks it up again and, unless this lookup fails, queries it, and
  the script ends with status 0.  When the info lookup fails, the script exits with status
  1 and makes no query.
\<close>

theorem main_falls_back_to_first_collection:
  assumes "attempt_exn env (ncalls w OpHttpClient) = None"
    and "fails env OpListCollections (ncalls w OpListCollections) = None"
    and "collections w = first # others"
    and "arg_collection a \<notin> set (collections w)"
  shows "(\<exists>evs. emitted w (snd (local_client_main env a w))
            = [CallHttpClient (arg_host a) (arg_port a), CallHeartbeat, CallListCollections,
               CallGetCollection first] @ evs)
       \<and> (info_lookup_succeeds env w \<longrightarrow>
             fst (local_client_main env a w) = Inr ()
             \<and> exit_status (fst (local_client_main env a w)) = 0
             \<and> emitted w (snd (local_client_main env a w))
                 = [CallHttpClient (arg_host a) (arg_port a), CallHeartbeat, CallListCollections,
                    CallGetCollection first, CallCount (Collection first)]
                   @ (if count_ret env (ncalls w OpCount) > 0 then [CallPeek (Collection first) 3] else [])
                   @ CallGetCollection first
                     # (if fails env OpGetCollection (Suc (ncalls w OpGetCollection)) = None
                        then [CallQuery (Collection first) (QStr (arg_query a)) 3 None None] else []))
       \<and> (\<not> info_lookup_succeeds env w \<longrightarrow>
             fst (local_client_main env a w) = Inl (SystemExit 1)
             \<and> exit_status (fst (local_client_main env a w)) = 1
             \<and> (\<exists>evs. emitted w (snd (local_client_main env a w))
                   = [CallHttpClient (arg_host a) (arg_port a), CallHeartbeat, CallListCollections,
                      CallGetCollection first] @ evs
                  \<and> set evs \<subseteq> {CallCount (Collection first), CallPeek (Collection first) 3}))"
proof -
  have sel: "first = (if arg_collection a \<in> set (first # others) then arg_collection a else first)"
    using assms(3,4) by simp
  from main_with_collections [OF assms(1,2,3) sel] show ?thesis
    by (cases "info_lookup_succeeds env w") (simp_all add: exit_status_def)
qed

theorem main_falls_back_to_first_collection_witness:
  "attempt_exn service_up (ncalls other_world OpHttpClient) = None
   \<and> fails service_up OpListCollections (ncalls other_world OpListCollections) = None
   \<and> collections other_world = ''other'' # []
   \<and> arg_collection default_args \<notin> set (collections other_world)
   \<and> info_lookup_succeeds service_up other_world
   \<and> fst (local_client_main service_up default_args other_world) = Inr ()
   \<and> emitted other_world (snd (local_client_main service_up default_args other_world))
       = [CallHttpClient ''localhost'' 8000, CallHeartbeat, CallListCollections,
          CallGetCollection ''other'', CallCount (Collection ''other''),
          CallGetCollection ''other'', CallQuery (Collection ''other'') (QStr ''space'') 3 None None]
   \<and> \<not> info_lookup_succeeds service_blank_record other_world
   \<and> fst (local_client_main service_blank_record default_args other_world) = Inl (SystemExit 1)"
proof -
  have a: "attempt_exn service_up (ncalls other_world OpHttpClient) = None"
    and b: "fails service_up OpListCollections (ncalls other_world OpListCollections) = None"
    and a2: "attempt_exn service_blank_record (ncalls other_world OpHttpClient) = None"
    and b2: "fails service_blank_record OpListCollections (ncalls other_world OpListCollections) = None"
    by (simp_all add: attempt_exn_def service_up_def service_blank_record_def)
  have c: "collections other_world = ''other'' # []" by (simp add: other_world_def empty_world_def)
  have d: "arg_collection default_args \<notin> set (collections other_world)"
    by (simp add: c default_args_def)
  have i: "info_lookup_succeeds service_up other_world"
    by (simp add: info_lookup_succeeds_def service_up_def)
  have n: "\<not> info_lookup_succeeds service_blank_record other_world"
    by (simp add: info_lookup_succeeds_def service_blank_record_def service_up_def
          sample_printable_def sample_rows_def)
  show ?thesis
    using main_falls_back_to_first_collection [OF a b c d]
      main_falls_back_to_first_collection [OF a2 b2 c d]
      a b c d i n
    by (simp add: default_args_def service_up_def)
qed

text \<open>
  The claim C9 fails in its last clause: the script exits nonzero also when a collection
  exists.  With one collection held, the target missing and a failing count, the info
  lookup of the first collection returns the empty dictionary and the script exits with
  status 1 without a query; and so it does, with no remote call failing, when a record of
  the sample has no document.
\<close>

theorem main_fallback_exits_nonzero:
  "collections other_world = [''other'']
   \<and> arg_collection default_args \<notin> set (collections other_world)
   \<and> fst (local_client_main (service_failing OpCount) default_args other_world) = Inl (SystemExit 1)
   \<and> exit_status (fst (local_client_main (service_failing OpCount) default_args other_world)) = 1
   \<and> emitted other_world (snd (local_client_main (service_failing OpCount) default_args other_world))
       = [CallHttpClient ''localhost'' 8000, CallHeartbeat, CallListCollections,
          CallGetCollection ''other'', CallCount (Collection ''other'')]
   \<and> fails service_blank_record = (\<lambda>opn k. None)
   \<and> fst (local_client_main service_blank_record default_args other_world) = Inl (SystemExit 1)
   \<and> exit_status (fst (local_client_main service_blank_record default_args other_world)) = 1
   \<and> emitted other_world (snd (local_client_main service_blank_record default_args other_world))
       = [CallHttpClient ''localhost'' 8000, CallHeartbeat, CallListCollections,
          CallGetCollection ''other'', CallCount (Collection ''other''),
          CallPeek (Collection ''other'') 3]"
  by (simp add: local_client_main_def connect_to_chroma_def connect_to_chroma_try_def HttpClient_def
        heartbeat_def list_collections_def remote_list_collections_def get_collection_info_def
        get_collection_info_try_def remote_get_collection_def collection_count_def
        collection_peek_def sample_rows_def exit_status_def emitted_def Let_def
        default_args_def service_failing_def service_blank_record_def service_up_def
        other_world_def empty_world_def)

end
